theory Spec2Isabelle
  imports Main "HOL-Library.AList" "HOL-Library.Word"
begin

section \<open>SchemaLoader: dynamic loading of Cap'n Proto struct schemas\<close>

text \<open>
  A shallow embedding of \<^verbatim>\<open>src/serialization/schema-loader.ts\<close>. The class
  \<^verbatim>\<open>SchemaLoader\<close> keeps one piece of mutable state, the map \<^verbatim>\<open>schemas\<close>;
  its methods become functions that take the registry and return it. Exceptions
  are values of a sum type. Numbers that the loader reads from a schema node
  (offsets, counts, type tags) are unsigned and are modelled as \<^typ>\<open>nat\<close>; ids are
  JavaScript bigints and are modelled as \<^typ>\<open>int\<close>.
\<close>

subsection \<open>The schema node as the loader reads it\<close>

text \<open>
  Modelled from the spec: the constants \<^verbatim>\<open>Type.VOID\<close> to \<^verbatim>\<open>Type.ANY_POINTER\<close>
  of \<^verbatim>\<open>../capnp/schema\<close>, a module that is not among the sources. They are the
  closed wire-type set (void, bool, the eight integer types, the two float types,
  text, data, list, enum, struct, interface, any-pointer), numbered here by their
  ordinals in the \<^verbatim>\<open>Type\<close> union of Cap'n Proto's \<^verbatim>\<open>schema.capnp\<close>.
\<close>

definition Type_VOID :: nat where "Type_VOID = 0"
definition Type_BOOL :: nat where "Type_BOOL = 1"
definition Type_INT8 :: nat where "Type_INT8 = 2"
definition Type_INT16 :: nat where "Type_INT16 = 3"
definition Type_INT32 :: nat where "Type_INT32 = 4"
definition Type_INT64 :: nat where "Type_INT64 = 5"
definition Type_UINT8 :: nat where "Type_UINT8 = 6"
definition Type_UINT16 :: nat where "Type_UINT16 = 7"
definition Type_UINT32 :: nat where "Type_UINT32 = 8"
definition Type_UINT64 :: nat where "Type_UINT64 = 9"
definition Type_FLOAT32 :: nat where "Type_FLOAT32 = 10"
definition Type_FLOAT64 :: nat where "Type_FLOAT64 = 11"
definition Type_TEXT :: nat where "Type_TEXT = 12"
definition Type_DATA :: nat where "Type_DATA = 13"
definition Type_LIST :: nat where "Type_LIST = 14"
definition Type_ENUM :: nat where "Type_ENUM = 15"
definition Type_STRUCT :: nat where "Type_STRUCT = 16"
definition Type_INTERFACE :: nat where "Type_INTERFACE = 17"
definition Type_ANY_POINTER :: nat where "Type_ANY_POINTER = 18"

definition known_tags :: "nat list" where
  "known_tags =
     [Type_VOID, Type_BOOL, Type_INT8, Type_INT16, Type_INT32, Type_INT64,
      Type_UINT8, Type_UINT16, Type_UINT32, Type_UINT64, Type_FLOAT32, Type_FLOAT64,
      Type_TEXT, Type_DATA, Type_LIST, Type_STRUCT, Type_ENUM, Type_INTERFACE,
      Type_ANY_POINTER]"

text \<open>
  A \<^verbatim>\<open>Type\<close> reader, reduced to what \<^verbatim>\<open>parseFields\<close> reads from it:
  \<^verbatim>\<open>which()\<close>, \<^verbatim>\<open>struct.typeId\<close> and \<^verbatim>\<open>list.elementType.which()\<close>. The loader
  reads the second only for a struct tag and the third only for a list tag.
\<close>

record capnp_type =
  type_which :: nat
  struct_typeId :: int
  list_elementType_which :: nat

text \<open>
  A \<^verbatim>\<open>Field\<close>: its name and its union, of which the loader tells a slot
  (\<^verbatim>\<open>_isSlot\<close>, with \<^verbatim>\<open>slot.offset\<close> and \<^verbatim>\<open>slot.type\<close>) from everything else.
\<close>

datatype field_union = Slot (slot_offset: nat) (slot_type: capnp_type) | Group int

record field =
  field_name :: string
  field_union :: field_union

fun field_isSlot :: "field \<Rightarrow> bool" where
  "field_isSlot f = (case field_union f of Slot _ _ \<Rightarrow> True | Group _ \<Rightarrow> False)"

record node =
  node_id :: int
  node_displayName :: string
  node_isStruct :: bool
  struct_dataWordCount :: nat
  struct_pointerCount :: nat
  struct_fields :: "field list"

subsection \<open>Field descriptors and the type classifier\<close>

record FieldInfo =
  fi_name :: string
  fi_offset :: nat
  fi_type :: string
  isPointer :: bool
  isPrimitive :: bool
  isText :: bool
  isData :: bool
  isList :: bool
  isStruct :: bool
  structTypeId :: "int option"
  listElementType :: "string option"

definition isPointerType :: "nat \<Rightarrow> bool" where
  "isPointerType typeWhich \<longleftrightarrow>
     typeWhich = Type_TEXT \<or> typeWhich = Type_DATA \<or> typeWhich = Type_LIST \<or>
     typeWhich = Type_STRUCT \<or> typeWhich = Type_ANY_POINTER"

definition isPrimitiveType :: "nat \<Rightarrow> bool" where
  "isPrimitiveType typeWhich \<longleftrightarrow>
     typeWhich = Type_BOOL \<or> typeWhich = Type_INT8 \<or> typeWhich = Type_INT16 \<or>
     typeWhich = Type_INT32 \<or> typeWhich = Type_INT64 \<or> typeWhich = Type_UINT8 \<or>
     typeWhich = Type_UINT16 \<or> typeWhich = Type_UINT32 \<or> typeWhich = Type_UINT64 \<or>
     typeWhich = Type_FLOAT32 \<or> typeWhich = Type_FLOAT64"

definition typeToString :: "nat \<Rightarrow> string" where
  "typeToString typeWhich =
     (if typeWhich = Type_VOID then ''void''
      else if typeWhich = Type_BOOL then ''bool''
      else if typeWhich = Type_INT8 then ''int8''
      else if typeWhich = Type_INT16 then ''int16''
      else if typeWhich = Type_INT32 then ''int32''
      else if typeWhich = Type_INT64 then ''int64''
      else if typeWhich = Type_UINT8 then ''uint8''
      else if typeWhich = Type_UINT16 then ''uint16''
      else if typeWhich = Type_UINT32 then ''uint32''
      else if typeWhich = Type_UINT64 then ''uint64''
      else if typeWhich = Type_FLOAT32 then ''float32''
      else if typeWhich = Type_FLOAT64 then ''float64''
      else if typeWhich = Type_TEXT then ''text''
      else if typeWhich = Type_DATA then ''data''
      else if typeWhich = Type_LIST then ''list''
      else if typeWhich = Type_STRUCT then ''struct''
      else if typeWhich = Type_ENUM then ''enum''
      else if typeWhich = Type_INTERFACE then ''interface''
      else if typeWhich = Type_ANY_POINTER then ''anyPointer''
      else ''unknown'')"

text \<open>
  The body of the loop of \<^verbatim>\<open>parseFields\<close> for one slot field: the descriptor
  literal, then the two conditional assignments.
\<close>

definition slotFieldInfo :: "string \<Rightarrow> nat \<Rightarrow> capnp_type \<Rightarrow> FieldInfo" where
  "slotFieldInfo nm off fieldType =
     (let typeWhich = type_which fieldType;
          fieldInfo = \<lparr> fi_name = nm, fi_offset = off,
                        fi_type = typeToString typeWhich,
                        isPointer = isPointerType typeWhich,
                        isPrimitive = isPrimitiveType typeWhich,
                        isText = (typeWhich = Type_TEXT),
                        isData = (typeWhich = Type_DATA),
                        isList = (typeWhich = Type_LIST),
                        isStruct = (typeWhich = Type_STRUCT),
                        structTypeId = None, listElementType = None \<rparr>;
          fieldInfo = (if isStruct fieldInfo
                       then fieldInfo\<lparr>structTypeId := Some (struct_typeId fieldType)\<rparr>
                       else fieldInfo);
          fieldInfo = (if isList fieldInfo
                       then fieldInfo\<lparr>listElementType :=
                              Some (typeToString (list_elementType_which fieldType))\<rparr>
                       else fieldInfo)
      in fieldInfo)"

text \<open>
  The loop of \<^verbatim>\<open>parseFields\<close>: the fields still to visit, in index order, and the
  array \<^verbatim>\<open>fields\<close> built so far, here \<open>fieldInfos\<close> (\<^verbatim>\<open>push\<close> appends at the end).
\<close>

fun parseFields_loop :: "field list \<Rightarrow> FieldInfo list \<Rightarrow> FieldInfo list" where
  "parseFields_loop [] fieldInfos = fieldInfos"
| "parseFields_loop (f # rest) fieldInfos =
     (case field_union f of
        Group _ \<Rightarrow> parseFields_loop rest fieldInfos
      | Slot off fieldType \<Rightarrow>
          parseFields_loop rest (fieldInfos @ [slotFieldInfo (field_name f) off fieldType]))"

definition parseFields :: "field list \<Rightarrow> FieldInfo list" where
  "parseFields fieldsList = parseFields_loop fieldsList []"

subsection \<open>Accessor synthesis\<close>

text \<open>
  The closures that \<^verbatim>\<open>addFieldAccessors\<close>, \<^verbatim>\<open>createPrimitiveGetter\<close> and
  \<^verbatim>\<open>createPrimitiveSetter\<close> build call one function of \<^verbatim>\<open>./pointers/utils\<close>
  each, at an offset fixed when the closure is made. A closure is modelled by the
  name of that function and the captured offset. \<open>GetUndefined\<close> and \<open>SetNoop\<close>
  are the two \<^verbatim>\<open>default\<close> branches.
\<close>

datatype getter =
    GetBit nat | GetInt8 nat | GetInt16 nat | GetInt32 nat | GetInt64 nat
  | GetUint8 nat | GetUint16 nat | GetUint32 nat | GetUint64 nat
  | GetFloat32 nat | GetFloat64 nat | GetUndefined
  | GetText nat | GetData nat | GetPointer nat

datatype setter =
    SetBit nat | SetInt8 nat | SetInt16 nat | SetInt32 nat | SetInt64 nat
  | SetUint8 nat | SetUint16 nat | SetUint32 nat | SetUint64 nat
  | SetFloat32 nat | SetFloat64 nat | SetNoop
  | SetText nat

text \<open>
  The table \<^verbatim>\<open>typeSizes\<close> of \<^verbatim>\<open>calculateByteOffset\<close>, and the lookup
  \<^verbatim>\<open>typeSizes[field.type] || 8\<close>: 8 for a label that the table lacks. (The labels
  are those of \<^const>\<open>typeToString\<close>; none is the name of a property that an
  object literal inherits.)
\<close>

definition typeSizes :: "(string \<times> nat) list" where
  "typeSizes =
     [(''int8'', 1), (''uint8'', 1),
      (''int16'', 2), (''uint16'', 2),
      (''int32'', 4), (''uint32'', 4),
      (''int64'', 8), (''uint64'', 8),
      (''float32'', 4), (''float64'', 8)]"

definition calculateByteOffset :: "FieldInfo \<Rightarrow> nat" where
  "calculateByteOffset fld =
     (if fi_type fld = ''bool'' then fi_offset fld div 8
      else
        let typeSize = (case map_of typeSizes (fi_type fld) of
                          None \<Rightarrow> 8
                        | Some n \<Rightarrow> if n = 0 then 8 else n)
        in fi_offset fld * typeSize)"

definition createPrimitiveGetter :: "FieldInfo \<Rightarrow> getter" where
  "createPrimitiveGetter fld =
     (let byteOffset = calculateByteOffset fld in
      if fi_type fld = ''bool'' then GetBit (fi_offset fld)
      else if fi_type fld = ''int8'' then GetInt8 byteOffset
      else if fi_type fld = ''int16'' then GetInt16 byteOffset
      else if fi_type fld = ''int32'' then GetInt32 byteOffset
      else if fi_type fld = ''int64'' then GetInt64 byteOffset
      else if fi_type fld = ''uint8'' then GetUint8 byteOffset
      else if fi_type fld = ''uint16'' then GetUint16 byteOffset
      else if fi_type fld = ''uint32'' then GetUint32 byteOffset
      else if fi_type fld = ''uint64'' then GetUint64 byteOffset
      else if fi_type fld = ''float32'' then GetFloat32 byteOffset
      else if fi_type fld = ''float64'' then GetFloat64 byteOffset
      else GetUndefined)"

definition createPrimitiveSetter :: "FieldInfo \<Rightarrow> setter" where
  "createPrimitiveSetter fld =
     (let byteOffset = calculateByteOffset fld in
      if fi_type fld = ''bool'' then SetBit (fi_offset fld)
      else if fi_type fld = ''int8'' then SetInt8 byteOffset
      else if fi_type fld = ''int16'' then SetInt16 byteOffset
      else if fi_type fld = ''int32'' then SetInt32 byteOffset
      else if fi_type fld = ''int64'' then SetInt64 byteOffset
      else if fi_type fld = ''uint8'' then SetUint8 byteOffset
      else if fi_type fld = ''uint16'' then SetUint16 byteOffset
      else if fi_type fld = ''uint32'' then SetUint32 byteOffset
      else if fi_type fld = ''uint64'' then SetUint64 byteOffset
      else if fi_type fld = ''float32'' then SetFloat32 byteOffset
      else if fi_type fld = ''float64'' then SetFloat64 byteOffset
      else SetNoop)"

text \<open>
  The \<^verbatim>\<open>PropertyDescriptor\<close> that \<^verbatim>\<open>addFieldAccessors\<close> fills in: \<^verbatim>\<open>get\<close> is set
  on every branch, \<^verbatim>\<open>set\<close> on the first two only (\<open>None\<close>: the descriptor has no
  \<^verbatim>\<open>set\<close>); \<^verbatim>\<open>enumerable\<close> and \<^verbatim>\<open>configurable\<close> are always true.
\<close>

record descriptor =
  desc_get :: getter
  desc_set :: "setter option"

definition fieldDescriptor :: "FieldInfo \<Rightarrow> descriptor" where
  "fieldDescriptor fld =
     (if isPrimitive fld then
        \<lparr> desc_get = createPrimitiveGetter fld, desc_set = Some (createPrimitiveSetter fld) \<rparr>
      else if isText fld then
        \<lparr> desc_get = GetText (fi_offset fld), desc_set = Some (SetText (fi_offset fld)) \<rparr>
      else if isData fld then
        \<lparr> desc_get = GetData (fi_offset fld), desc_set = None \<rparr>
      else if isList fld then
        \<lparr> desc_get = GetPointer (fi_offset fld), desc_set = None \<rparr>
      else if isStruct fld then
        \<lparr> desc_get = GetPointer (fi_offset fld), desc_set = None \<rparr>
      else
        \<lparr> desc_get = GetPointer (fi_offset fld), desc_set = None \<rparr>)"

text \<open>
  The own properties of \<^verbatim>\<open>DynamicStruct.prototype\<close>, in creation order. The class
  body gives it \<^verbatim>\<open>constructor\<close> and \<^verbatim>\<open>toString\<close>, two methods that are not
  enumerable; every other property is an accessor defined by
  \<^verbatim>\<open>addFieldAccessors\<close>, enumerable and configurable.

  \<^verbatim>\<open>Object.defineProperty\<close> on a name that is absent appends the property. On a
  name that is present it changes the property in place: a method becomes an
  accessor with the descriptor's \<^verbatim>\<open>get\<close> and \<^verbatim>\<open>set\<close>; an accessor takes the
  descriptor's \<^verbatim>\<open>get\<close>, and its \<^verbatim>\<open>set\<close> only when the descriptor has one (a
  field absent from the descriptor leaves the attribute as it was).
\<close>

datatype property = Method | Accessor (prop_get: getter) (prop_set: "setter option")

type_synonym prototype = "(string \<times> property) list"

definition initial_prototype :: prototype where
  "initial_prototype = [(''constructor'', Method), (''toString'', Method)]"

definition defineProperty :: "prototype \<Rightarrow> string \<Rightarrow> descriptor \<Rightarrow> prototype" where
  "defineProperty proto nm d =
     (case map_of proto nm of
        Some (Accessor g old_set) \<Rightarrow>
          AList.update nm
            (Accessor (desc_get d) (case desc_set d of None \<Rightarrow> old_set | Some s \<Rightarrow> Some s))
            proto
      | _ \<Rightarrow> AList.update nm (Accessor (desc_get d) (desc_set d)) proto)"

definition addFieldAccessors :: "prototype \<Rightarrow> FieldInfo \<Rightarrow> prototype" where
  "addFieldAccessors proto fld = defineProperty proto (fi_name fld) (fieldDescriptor fld)"

subsection \<open>The dynamic struct type and the loaded schema\<close>

text \<open>
  Modelled from the spec: the class \<^verbatim>\<open>ObjectSize\<close> of \<^verbatim>\<open>./object-size\<close>, "an
  object-size descriptor type carrying {data-bytes, pointer-count}", built by
  \<^verbatim>\<open>new ObjectSize(dataByteLength, pointerLength)\<close>.
\<close>

record ObjectSize =
  dataByteLength :: nat
  pointerLength :: nat

text \<open>
  The class that \<^verbatim>\<open>createDynamicStruct\<close> returns: its static \<^verbatim>\<open>_capnp\<close> and its
  prototype. The loop over \<^verbatim>\<open>fields\<close> is \<open>addAllAccessors\<close>.
\<close>

record capnp_meta =
  capnp_displayName :: string
  capnp_id :: string
  capnp_size :: ObjectSize

record StructCtor =
  ctor_capnp :: capnp_meta
  ctor_prototype :: prototype

fun addAllAccessors :: "prototype \<Rightarrow> FieldInfo list \<Rightarrow> prototype" where
  "addAllAccessors proto [] = proto"
| "addAllAccessors proto (fld # rest) = addAllAccessors (addFieldAccessors proto fld) rest"

definition createDynamicStruct ::
  "string \<Rightarrow> string \<Rightarrow> ObjectSize \<Rightarrow> FieldInfo list \<Rightarrow> StructCtor" where
  "createDynamicStruct ident displayName sz fieldInfos =
     \<lparr> ctor_capnp = \<lparr> capnp_displayName = displayName, capnp_id = ident, capnp_size = sz \<rparr>,
       ctor_prototype = addAllAccessors initial_prototype fieldInfos \<rparr>"

record LoadedSchema =
  schema_id :: int
  schema_displayName :: string
  schema_size :: ObjectSize
  structCtor :: StructCtor

subsection \<open>Strings: \<^verbatim>\<open>split\<close>, \<^verbatim>\<open>toString\<close> and the display name\<close>

text \<open>
  \<^verbatim>\<open>String.prototype.split\<close> with a separator of one character: the pieces
  between the occurrences of the separator, in order; a string without the
  separator, the empty string too, gives one piece.
\<close>

fun split :: "char \<Rightarrow> string \<Rightarrow> string list" where
  "split sep [] = [[]]"
| "split sep (c # cs) =
     (if c = sep then [] # split sep cs
      else (case split sep cs of
              [] \<Rightarrow> [[c]]
            | part # parts \<Rightarrow> (c # part) # parts))"

text \<open>
  \<^verbatim>\<open>parts[parts.length - 1] || fullName\<close>: the last piece, unless it is the empty
  string, which is falsy.
\<close>

definition extractDisplayName :: "string \<Rightarrow> string" where
  "extractDisplayName fullName =
     (let parts = split (CHR '':'') fullName;
          lastPart = parts ! (length parts - 1)
      in if lastPart \<noteq> [] then lastPart else fullName)"

text \<open>
  \<^verbatim>\<open>BigInt.prototype.toString(radix)\<close> for the radices 10 and 16 that the loader
  uses: digits \<^verbatim>\<open>0-9a-f\<close>, most significant first, no leading zero, a minus sign
  for a negative value.
\<close>

definition digit_char :: "nat \<Rightarrow> char" where
  "digit_char d = (if d < 10 then char_of (48 + d) else char_of (87 + d))"

function digits_radix :: "nat \<Rightarrow> nat \<Rightarrow> string" where
  "digits_radix b n =
     (if b < 2 \<or> n < b then [digit_char n]
      else digits_radix b (n div b) @ [digit_char (n mod b)])"
  by pat_completeness auto
termination
  by (relation "measure (\<lambda>(b, n). n)") auto

declare digits_radix.simps [simp del]

definition bigint_toString :: "nat \<Rightarrow> int \<Rightarrow> string" where
  "bigint_toString radix i =
     (if i < 0 then CHR ''-'' # digits_radix radix (nat (- i))
      else digits_radix radix (nat i))"

text \<open>
  Reading a rendering back: the number that a string of digits stands for. It
  orders the array indices among property names, and shows that
  \<^const>\<open>bigint_toString\<close> is injective.
\<close>

definition digit_val :: "char \<Rightarrow> nat" where
  "digit_val c = (let n = of_char c in if n < 58 then n - 48 else n - 87)"

definition radix_val :: "nat \<Rightarrow> string \<Rightarrow> nat" where
  "radix_val b s = foldl (\<lambda>a c. a * b + digit_val c) 0 s"

subsection \<open>The registry\<close>

text \<open>
  \<^verbatim>\<open>schemas\<close> is a JavaScript \<^verbatim>\<open>Map\<close> from the decimal rendering of an id to the
  schema. A \<^verbatim>\<open>Map\<close> iterates in insertion order and \<^verbatim>\<open>set\<close> on a present key
  replaces the value where it stands, which is what \<^const>\<open>AList.update\<close> does on a
  list of pairs. Both exceptions of the class are plain \<^verbatim>\<open>Error\<close>s; the two
  constructors below carry their messages.
\<close>

datatype error = NotAStructError string | SchemaNotFoundError string

type_synonym registry = "(string \<times> LoadedSchema) list"

definition empty_registry :: registry where
  "empty_registry = []"

definition loadDynamic :: "node \<Rightarrow> registry \<Rightarrow> (error + LoadedSchema) \<times> registry" where
  "loadDynamic nd schemas =
     (let ident = node_id nd;
          displayName = extractDisplayName (node_displayName nd)
      in if \<not> node_isStruct nd then
           (Inl (NotAStructError
                  (''Node '' @ displayName @ '' ('' @ bigint_toString 10 ident
                     @ '') is not a struct'')),
            schemas)
         else
           let sz = \<lparr> dataByteLength = struct_dataWordCount nd * 8,
                      pointerLength = struct_pointerCount nd \<rparr>;
               fieldInfos = parseFields (struct_fields nd);
               ctor = createDynamicStruct (bigint_toString 16 ident) displayName sz fieldInfos;
               schema = \<lparr> schema_id = ident, schema_displayName = displayName,
                          schema_size = sz, structCtor = ctor \<rparr>
           in (Inr schema, AList.update (bigint_toString 10 ident) schema schemas))"

definition get :: "registry \<Rightarrow> int \<Rightarrow> error + LoadedSchema" where
  "get schemas ident =
     (case map_of schemas (bigint_toString 10 ident) of
        None \<Rightarrow>
          Inl (SchemaNotFoundError
                (''Schema with ID '' @ bigint_toString 10 ident
                   @ '' not found. Did you call loadDynamic()?''))
      | Some schema \<Rightarrow> Inr schema)"

fun getByName_loop :: "LoadedSchema list \<Rightarrow> string \<Rightarrow> LoadedSchema option" where
  "getByName_loop [] nm = None"
| "getByName_loop (schema # rest) nm =
     (if schema_displayName schema = nm then Some schema else getByName_loop rest nm)"

definition getByName :: "registry \<Rightarrow> string \<Rightarrow> LoadedSchema option" where
  "getByName schemas nm = getByName_loop (map snd schemas) nm"

text \<open>
  A caller's sequence of \<^verbatim>\<open>loadDynamic\<close> calls on one loader, each call's
  exception caught: the registry that the calls leave behind.
\<close>

fun loadAll :: "node list \<Rightarrow> registry \<Rightarrow> registry" where
  "loadAll [] schemas = schemas"
| "loadAll (nd # rest) schemas = loadAll rest (snd (loadDynamic nd schemas))"

subsection \<open>Struct instances and the wire-layout primitives\<close>

text \<open>
  Modelled from the spec: the class \<^verbatim>\<open>Struct\<close> of \<^verbatim>\<open>./pointers/struct\<close> and the
  functions of \<^verbatim>\<open>./pointers/utils\<close> that the accessors call, none of them among
  the sources. The specification names them the wire-layout primitives,
  "bounds-checked read/write of fixed-width scalars and single bits at byte/bit
  offsets" and "pointer dereference", consumed as "bit get/set at a bit index;
  fixed-width signed/unsigned integer and float get/set at a byte offset, for
  widths {1,2,4,8} bytes; text get/set and data get at a pointer-slot index;
  generic pointer get at a pointer-slot index". A struct instance is a view of a
  data section (bytes) and a pointer section (slots). Integers are stored in
  two's complement, least significant byte first, as Cap'n Proto does. A float is
  kept as its bit pattern; its decoding is not modelled. An access outside the
  section throws.
\<close>

datatype pointer = PtrNull | PtrText string | PtrData "8 word list" | PtrOther nat

datatype js_value =
    VUndefined | VNull | VBool bool | VNumber int | VBigInt int
  | VFloat32 nat | VFloat64 nat | VString string | VData "8 word list"
  | VPointer pointer | VFunction nat

datatype exn = RangeError | TypeMismatch | TypeError

text \<open>
  Modelled from the spec: the decoded struct instance, "an ephemeral view bound
  to a region of an external message buffer". \<open>inst_own\<close> are the instance's own
  properties (set by the constructor of \<^verbatim>\<open>Struct\<close>), \<open>inst_proto\<close> is
  \<^verbatim>\<open>Object.getPrototypeOf\<close> of the instance, \<open>inst_data\<close> and \<open>inst_ptrs\<close> are
  the two sections of the region.
\<close>

record StructInst =
  inst_own :: "(string \<times> js_value) list"
  inst_proto :: prototype
  inst_data :: "8 word list"
  inst_ptrs :: "pointer list"

text \<open>
  Modelled from the spec: the fixed-width scalars of the data section. A value
  below \<open>256 ^ n\<close> as \<open>n\<close> bytes, least significant first, and back; the signed
  reading of such a value and the unsigned value that stands for an integer.
\<close>

fun le_encode :: "nat \<Rightarrow> nat \<Rightarrow> 8 word list" where
  "le_encode 0 v = []"
| "le_encode (Suc n) v = of_nat (v mod 256) # le_encode n (v div 256)"

fun le_decode :: "8 word list \<Rightarrow> nat" where
  "le_decode [] = 0"
| "le_decode (b # bs) = unat b + 256 * le_decode bs"

definition signed_of :: "nat \<Rightarrow> nat \<Rightarrow> int" where
  "signed_of n u = (if u < 2 ^ (8 * n - 1) then int u else int u - 2 ^ (8 * n))"

definition unsigned_of :: "nat \<Rightarrow> int \<Rightarrow> nat" where
  "unsigned_of n v = nat (v mod 2 ^ (8 * n))"

text \<open>
  Modelled from the spec: the bounds checks of the two sections and the
  bounds-checked read and write of \<open>n\<close> bytes at a byte offset.
\<close>

definition checkDataBounds :: "nat \<Rightarrow> nat \<Rightarrow> StructInst \<Rightarrow> bool" where
  "checkDataBounds byteOffset byteLength s \<longleftrightarrow> byteOffset + byteLength \<le> length (inst_data s)"

definition checkPointerBounds :: "nat \<Rightarrow> StructInst \<Rightarrow> bool" where
  "checkPointerBounds idx s \<longleftrightarrow> idx < length (inst_ptrs s)"

definition readLE :: "nat \<Rightarrow> nat \<Rightarrow> StructInst \<Rightarrow> exn + nat" where
  "readLE byteOffset n s =
     (if checkDataBounds byteOffset n s
      then Inr (le_decode (take n (drop byteOffset (inst_data s))))
      else Inl RangeError)"

definition writeLE :: "nat \<Rightarrow> nat \<Rightarrow> nat \<Rightarrow> StructInst \<Rightarrow> exn + StructInst" where
  "writeLE byteOffset n v s =
     (if checkDataBounds byteOffset n s
      then Inr (s\<lparr>inst_data := take byteOffset (inst_data s) @ le_encode n v
                                  @ drop (byteOffset + n) (inst_data s)\<rparr>)
      else Inl RangeError)"

text \<open>
  Modelled from the spec: \<^verbatim>\<open>utils.getInt8\<close> to \<^verbatim>\<open>utils.getInt64\<close>
  (\<open>getSigned\<close>), \<^verbatim>\<open>utils.getUint8\<close> to \<^verbatim>\<open>utils.getUint64\<close> (\<open>getUnsigned\<close>),
  \<^verbatim>\<open>utils.getBit\<close> and \<^verbatim>\<open>utils.setBit\<close>: the bit of index \<open>bitOffset mod 8\<close> in
  the byte of index \<open>bitOffset div 8\<close>.
\<close>

definition getSigned :: "nat \<Rightarrow> nat \<Rightarrow> StructInst \<Rightarrow> exn + int" where
  "getSigned n byteOffset s =
     (case readLE byteOffset n s of Inl e \<Rightarrow> Inl e | Inr u \<Rightarrow> Inr (signed_of n u))"

definition getUnsigned :: "nat \<Rightarrow> nat \<Rightarrow> StructInst \<Rightarrow> exn + int" where
  "getUnsigned n byteOffset s =
     (case readLE byteOffset n s of Inl e \<Rightarrow> Inl e | Inr u \<Rightarrow> Inr (int u))"

definition getBit :: "nat \<Rightarrow> StructInst \<Rightarrow> exn + bool" where
  "getBit bitOffset s =
     (let byteOffset = bitOffset div 8 in
      if checkDataBounds byteOffset 1 s
      then Inr (bit (inst_data s ! byteOffset) (bitOffset mod 8))
      else Inl RangeError)"

definition setBit :: "nat \<Rightarrow> bool \<Rightarrow> StructInst \<Rightarrow> exn + StructInst" where
  "setBit bitOffset v s =
     (let byteOffset = bitOffset div 8;
          old = inst_data s ! byteOffset
      in if checkDataBounds byteOffset 1 s
         then Inr (s\<lparr>inst_data := (inst_data s)
                     [byteOffset := (if v then set_bit (bitOffset mod 8) old
                                     else unset_bit (bitOffset mod 8) old)]\<rparr>)
         else Inl RangeError)"

text \<open>
  Modelled from the spec: \<^verbatim>\<open>utils.getText\<close>, \<^verbatim>\<open>utils.setText\<close>,
  \<^verbatim>\<open>utils.getData\<close> and \<^verbatim>\<open>utils.getPointer\<close> at a pointer-slot index. Text and
  data decode the pointer of the slot (a null pointer as the empty value) and
  throw on a pointer of another kind; the generic read returns the pointer.
\<close>

definition getText :: "nat \<Rightarrow> StructInst \<Rightarrow> exn + string" where
  "getText idx s =
     (if checkPointerBounds idx s
      then (case inst_ptrs s ! idx of
              PtrText t \<Rightarrow> Inr t
            | PtrNull \<Rightarrow> Inr []
            | _ \<Rightarrow> Inl TypeMismatch)
      else Inl RangeError)"

definition setText :: "nat \<Rightarrow> string \<Rightarrow> StructInst \<Rightarrow> exn + StructInst" where
  "setText idx v s =
     (if checkPointerBounds idx s
      then Inr (s\<lparr>inst_ptrs := (inst_ptrs s)[idx := PtrText v]\<rparr>)
      else Inl RangeError)"

definition getData :: "nat \<Rightarrow> StructInst \<Rightarrow> exn + 8 word list" where
  "getData idx s =
     (if checkPointerBounds idx s
      then (case inst_ptrs s ! idx of
              PtrData d \<Rightarrow> Inr d
            | PtrNull \<Rightarrow> Inr []
            | _ \<Rightarrow> Inl TypeMismatch)
      else Inl RangeError)"

definition getPointer :: "nat \<Rightarrow> StructInst \<Rightarrow> exn + pointer" where
  "getPointer idx s =
     (if checkPointerBounds idx s then Inr (inst_ptrs s ! idx) else Inl RangeError)"

definition returning :: "('a \<Rightarrow> js_value) \<Rightarrow> exn + 'a \<Rightarrow> exn + js_value" where
  "returning wrap r = (case r of Inl e \<Rightarrow> Inl e | Inr x \<Rightarrow> Inr (wrap x))"

text \<open>Calling a synthesized getter with \<^verbatim>\<open>this\<close> bound to the instance.\<close>

fun call_getter :: "getter \<Rightarrow> StructInst \<Rightarrow> exn + js_value" where
  "call_getter (GetBit off) s = returning VBool (getBit off s)"
| "call_getter (GetInt8 off) s = returning VNumber (getSigned 1 off s)"
| "call_getter (GetInt16 off) s = returning VNumber (getSigned 2 off s)"
| "call_getter (GetInt32 off) s = returning VNumber (getSigned 4 off s)"
| "call_getter (GetInt64 off) s = returning VBigInt (getSigned 8 off s)"
| "call_getter (GetUint8 off) s = returning VNumber (getUnsigned 1 off s)"
| "call_getter (GetUint16 off) s = returning VNumber (getUnsigned 2 off s)"
| "call_getter (GetUint32 off) s = returning VNumber (getUnsigned 4 off s)"
| "call_getter (GetUint64 off) s = returning VBigInt (getUnsigned 8 off s)"
| "call_getter (GetFloat32 off) s = returning VFloat32 (readLE off 4 s)"
| "call_getter (GetFloat64 off) s = returning VFloat64 (readLE off 8 s)"
| "call_getter GetUndefined s = Inr VUndefined"
| "call_getter (GetText idx) s = returning VString (getText idx s)"
| "call_getter (GetData idx) s = returning VData (getData idx s)"
| "call_getter (GetPointer idx) s = returning VPointer (getPointer idx s)"

text \<open>
  Calling a synthesized setter with a value of the type its TypeScript signature
  names. A value of another type is refused here; what JavaScript's coercions
  would store is not modelled.
\<close>

fun as_bool :: "js_value \<Rightarrow> bool option" where
  "as_bool (VBool b) = Some b"
| "as_bool _ = None"

fun as_number :: "js_value \<Rightarrow> int option" where
  "as_number (VNumber v) = Some v"
| "as_number _ = None"

fun as_bigint :: "js_value \<Rightarrow> int option" where
  "as_bigint (VBigInt v) = Some v"
| "as_bigint _ = None"

fun as_float32 :: "js_value \<Rightarrow> nat option" where
  "as_float32 (VFloat32 v) = Some v"
| "as_float32 _ = None"

fun as_float64 :: "js_value \<Rightarrow> nat option" where
  "as_float64 (VFloat64 v) = Some v"
| "as_float64 _ = None"

fun as_string :: "js_value \<Rightarrow> string option" where
  "as_string (VString v) = Some v"
| "as_string _ = None"

definition taking :: "'a option \<Rightarrow> ('a \<Rightarrow> exn + StructInst) \<Rightarrow> exn + StructInst" where
  "taking arg store = (case arg of None \<Rightarrow> Inl TypeMismatch | Some v \<Rightarrow> store v)"

fun call_setter :: "setter \<Rightarrow> js_value \<Rightarrow> StructInst \<Rightarrow> exn + StructInst" where
  "call_setter (SetBit off) v s = taking (as_bool v) (\<lambda>b. setBit off b s)"
| "call_setter (SetInt8 off) v s = taking (as_number v) (\<lambda>i. writeLE off 1 (unsigned_of 1 i) s)"
| "call_setter (SetInt16 off) v s = taking (as_number v) (\<lambda>i. writeLE off 2 (unsigned_of 2 i) s)"
| "call_setter (SetInt32 off) v s = taking (as_number v) (\<lambda>i. writeLE off 4 (unsigned_of 4 i) s)"
| "call_setter (SetInt64 off) v s = taking (as_bigint v) (\<lambda>i. writeLE off 8 (unsigned_of 8 i) s)"
| "call_setter (SetUint8 off) v s = taking (as_number v) (\<lambda>i. writeLE off 1 (unsigned_of 1 i) s)"
| "call_setter (SetUint16 off) v s = taking (as_number v) (\<lambda>i. writeLE off 2 (unsigned_of 2 i) s)"
| "call_setter (SetUint32 off) v s = taking (as_number v) (\<lambda>i. writeLE off 4 (unsigned_of 4 i) s)"
| "call_setter (SetUint64 off) v s = taking (as_bigint v) (\<lambda>i. writeLE off 8 (unsigned_of 8 i) s)"
| "call_setter (SetFloat32 off) v s = taking (as_float32 v) (\<lambda>w. writeLE off 4 (w mod 2 ^ 32) s)"
| "call_setter (SetFloat64 off) v s = taking (as_float64 v) (\<lambda>w. writeLE off 8 (w mod 2 ^ 64) s)"
| "call_setter SetNoop v s = Inr s"
| "call_setter (SetText idx) v s = taking (as_string v) (\<lambda>t. setText idx t s)"

subsection \<open>Projection to a plain object\<close>

text \<open>
  \<^verbatim>\<open>Object.keys\<close> of the prototype: its own enumerable properties, those whose
  name is an array index first, in ascending numeric order, then the others in
  creation order. An array index is the decimal rendering, without a leading
  zero, of a number up to \<open>2^32 - 2\<close>.
\<close>

definition is_array_index :: "string \<Rightarrow> bool" where
  "is_array_index nm \<longleftrightarrow>
     nm \<noteq> [] \<and> list_all (\<lambda>c. c \<in> set ''0123456789'') nm
     \<and> (nm = ''0'' \<or> hd nm \<noteq> CHR ''0'')
     \<and> radix_val 10 nm \<le> 4294967294"

definition Object_keys :: "prototype \<Rightarrow> string list" where
  "Object_keys proto =
     (let names = map fst (filter (\<lambda>(k, p). p \<noteq> Method) proto)
      in sort_key (radix_val 10) (filter is_array_index names)
         @ filter (\<lambda>nm. \<not> is_array_index nm) names)"

text \<open>
  \<^verbatim>\<open>(struct as any)[key]\<close>: an own property of the instance first, then the
  prototype, where an accessor's getter is called and may throw.
\<close>

definition readProperty :: "StructInst \<Rightarrow> string \<Rightarrow> exn + js_value" where
  "readProperty s key =
     (case map_of (inst_own s) key of
        Some v \<Rightarrow> Inr v
      | None \<Rightarrow>
          (case map_of (inst_proto s) key of
             Some (Accessor g _) \<Rightarrow> call_getter g s
           | Some Method \<Rightarrow> Inr (VFunction 0)
           | None \<Rightarrow> Inr VUndefined))"

fun is_function :: "js_value \<Rightarrow> bool" where
  "is_function (VFunction _) = True"
| "is_function _ = False"

text \<open>
  The object \<^verbatim>\<open>obj\<close> that \<^verbatim>\<open>toObject\<close> builds from the literal \<^verbatim>\<open>{}\<close>: its
  own properties in creation order, and its prototype, which is
  \<^verbatim>\<open>Object.prototype\<close> at first and which an assignment to \<^verbatim>\<open>__proto__\<close> can
  replace by \<^verbatim>\<open>null\<close> or by an object.
\<close>

datatype obj_prototype = ObjectPrototype | NullPrototype | ValuePrototype js_value

record plain_object =
  obj_prototype :: obj_prototype
  obj_props :: "(string \<times> js_value) list"

definition empty_object :: plain_object where
  "empty_object = \<lparr> obj_prototype = ObjectPrototype, obj_props = [] \<rparr>"

fun is_object :: "js_value \<Rightarrow> bool" where
  "is_object (VData _) = True"
| "is_object (VPointer _) = True"
| "is_object (VFunction _) = True"
| "is_object _ = False"

text \<open>
  The classes of the objects that a read can return (\<^verbatim>\<open>Pointer\<close>, \<^verbatim>\<open>Data\<close>) are
  not among the sources, so what such an object does, once it is the prototype of
  \<^verbatim>\<open>obj\<close>, with an assignment of a name is a parameter of the model: it passes
  the assignment on (no property of that name, or a writable one), it takes
  it (a setter: no own property is made), or it refuses it (a property that
  cannot be written: a \<^verbatim>\<open>TypeError\<close> in a module, which is strict code).
\<close>

datatype ext_assign = Passes | Swallows | Refuses

type_synonym ext_objects = "js_value \<Rightarrow> string \<Rightarrow> ext_assign"

text \<open>
  The assignment \<^verbatim>\<open>obj[key] = v\<close>. An own property of that name takes the
  value. Otherwise the prototype decides. Under \<^verbatim>\<open>Object.prototype\<close> the name
  \<^verbatim>\<open>__proto__\<close> is an accessor whose setter replaces the prototype of \<^verbatim>\<open>obj\<close>
  when the value is an object or \<^verbatim>\<open>null\<close>, does nothing for any other value,
  and makes no own property; every other name becomes a new own property.
  Without a prototype every name becomes a new own property.
\<close>

definition assign_via_Object_prototype ::
  "plain_object \<Rightarrow> string \<Rightarrow> js_value \<Rightarrow> plain_object" where
  "assign_via_Object_prototype obj key v =
     (if key = ''__proto__'' then
        (if is_object v then obj\<lparr>obj_prototype := ValuePrototype v\<rparr>
         else if v = VNull then obj\<lparr>obj_prototype := NullPrototype\<rparr>
         else obj)
      else obj\<lparr>obj_props := obj_props obj @ [(key, v)]\<rparr>)"

definition assign :: "ext_objects \<Rightarrow> plain_object \<Rightarrow> string \<Rightarrow> js_value \<Rightarrow> exn + plain_object" where
  "assign ext obj key v =
     (if map_of (obj_props obj) key \<noteq> None then
        Inr (obj\<lparr>obj_props := AList.update key v (obj_props obj)\<rparr>)
      else
        (case obj_prototype obj of
           ObjectPrototype \<Rightarrow> Inr (assign_via_Object_prototype obj key v)
         | NullPrototype \<Rightarrow> Inr (obj\<lparr>obj_props := obj_props obj @ [(key, v)]\<rparr>)
         | ValuePrototype w \<Rightarrow>
             (case ext w key of
                Passes \<Rightarrow> Inr (assign_via_Object_prototype obj key v)
              | Swallows \<Rightarrow> Inr obj
              | Refuses \<Rightarrow> Inl TypeError)))"

text \<open>
  The loop of \<^verbatim>\<open>toObject\<close>: the keys still to visit and the object built so far.
  An exception of the read or of the assignment in the \<^verbatim>\<open>try\<close> block leads to
  the assignment of \<^verbatim>\<open>null\<close> in the \<^verbatim>\<open>catch\<close> block; an exception of that one
  leaves \<^verbatim>\<open>toObject\<close>.
\<close>

fun toObject_loop ::
  "ext_objects \<Rightarrow> StructInst \<Rightarrow> string list \<Rightarrow> plain_object \<Rightarrow> exn + plain_object" where
  "toObject_loop ext s [] obj = Inr obj"
| "toObject_loop ext s (key # keys) obj =
     (case (case readProperty s key of
              Inr v \<Rightarrow>
                if is_function v \<or> v = VUndefined then Inr obj
                else (case assign ext obj key v of
                        Inr obj' \<Rightarrow> Inr obj'
                      | Inl e \<Rightarrow> assign ext obj key VNull)
            | Inl e \<Rightarrow> assign ext obj key VNull) of
        Inr obj' \<Rightarrow> toObject_loop ext s keys obj'
      | Inl e \<Rightarrow> Inl e)"

definition toObject :: "ext_objects \<Rightarrow> StructInst \<Rightarrow> LoadedSchema \<Rightarrow> exn + plain_object" where
  "toObject ext s schema = toObject_loop ext s (Object_keys (inst_proto s)) empty_object"

text \<open>
  An instance of a loaded schema's struct type: \<^verbatim>\<open>new schema.structCtor(...)\<close>,
  bound to the given sections.
\<close>

definition new_instance ::
  "LoadedSchema \<Rightarrow> (string \<times> js_value) list \<Rightarrow> 8 word list \<Rightarrow> pointer list \<Rightarrow> StructInst" where
  "new_instance schema own d ps =
     \<lparr> inst_own = own, inst_proto = ctor_prototype (structCtor schema),
       inst_data = d, inst_ptrs = ps \<rparr>"

section \<open>Specification-side notions\<close>

text \<open>
  The definitions of this section follow the words of the specification, not the
  code; the theorems below compare the code with them.
\<close>

text \<open>The width table of the specification, in bytes, by type tag.\<close>

definition byte_width :: "nat \<Rightarrow> nat" where
  "byte_width typeWhich =
     (if typeWhich = Type_INT8 \<or> typeWhich = Type_UINT8 then 1
      else if typeWhich = Type_INT16 \<or> typeWhich = Type_UINT16 then 2
      else if typeWhich = Type_INT32 \<or> typeWhich = Type_UINT32 \<or> typeWhich = Type_FLOAT32 then 4
      else if typeWhich = Type_INT64 \<or> typeWhich = Type_UINT64 \<or> typeWhich = Type_FLOAT64 then 8
      else 0)"

text \<open>The read and the write of \<^verbatim>\<open>./pointers/utils\<close> for a primitive type tag.\<close>

definition utils_getter :: "nat \<Rightarrow> nat \<Rightarrow> getter" where
  "utils_getter typeWhich pos =
     (if typeWhich = Type_BOOL then GetBit pos
      else if typeWhich = Type_INT8 then GetInt8 pos
      else if typeWhich = Type_INT16 then GetInt16 pos
      else if typeWhich = Type_INT32 then GetInt32 pos
      else if typeWhich = Type_INT64 then GetInt64 pos
      else if typeWhich = Type_UINT8 then GetUint8 pos
      else if typeWhich = Type_UINT16 then GetUint16 pos
      else if typeWhich = Type_UINT32 then GetUint32 pos
      else if typeWhich = Type_UINT64 then GetUint64 pos
      else if typeWhich = Type_FLOAT32 then GetFloat32 pos
      else GetFloat64 pos)"

definition utils_setter :: "nat \<Rightarrow> nat \<Rightarrow> setter" where
  "utils_setter typeWhich pos =
     (if typeWhich = Type_BOOL then SetBit pos
      else if typeWhich = Type_INT8 then SetInt8 pos
      else if typeWhich = Type_INT16 then SetInt16 pos
      else if typeWhich = Type_INT32 then SetInt32 pos
      else if typeWhich = Type_INT64 then SetInt64 pos
      else if typeWhich = Type_UINT8 then SetUint8 pos
      else if typeWhich = Type_UINT16 then SetUint16 pos
      else if typeWhich = Type_UINT32 then SetUint32 pos
      else if typeWhich = Type_UINT64 then SetUint64 pos
      else if typeWhich = Type_FLOAT32 then SetFloat32 pos
      else SetFloat64 pos)"

text \<open>
  The position of a primitive field: the wire offset as a bit index for a
  boolean, the wire offset times the width in bytes otherwise.
\<close>

definition field_position :: "nat \<Rightarrow> nat \<Rightarrow> nat" where
  "field_position typeWhich wireOffset =
     (if typeWhich = Type_BOOL then wireOffset else wireOffset * byte_width typeWhich)"

text \<open>The text after the final colon; the whole string when it has no colon.\<close>

definition after_final_colon :: "string \<Rightarrow> string" where
  "after_final_colon s = rev (takeWhile (\<lambda>c. c \<noteq> CHR '':'') (rev s))"

text \<open>
  The descriptor that the specification asks for a slot field: name, wire
  offset, the classification of the type tag, the nested struct's id exactly for
  a struct, the classified element type exactly for a list.
\<close>

definition spec_descriptor :: "field \<Rightarrow> FieldInfo" where
  "spec_descriptor f =
     (let ty = slot_type (field_union f); w = type_which ty in
      \<lparr> fi_name = field_name f, fi_offset = slot_offset (field_union f),
        fi_type = typeToString w,
        isPointer = isPointerType w, isPrimitive = isPrimitiveType w,
        isText = (w = Type_TEXT), isData = (w = Type_DATA),
        isList = (w = Type_LIST), isStruct = (w = Type_STRUCT),
        structTypeId = (if w = Type_STRUCT then Some (struct_typeId ty) else None),
        listElementType =
          (if w = Type_LIST then Some (typeToString (list_elementType_which ty)) else None) \<rparr>)"

section \<open>Abbreviations and sample inputs\<close>

text \<open>
  The record that \<^verbatim>\<open>loadDynamic\<close> builds and stores for a struct node, as a
  function of that node alone, and the messages of the two errors.
\<close>

definition loaded_schema :: "node \<Rightarrow> LoadedSchema" where
  "loaded_schema nd =
     \<lparr> schema_id = node_id nd,
       schema_displayName = extractDisplayName (node_displayName nd),
       schema_size = \<lparr> dataByteLength = struct_dataWordCount nd * 8,
                       pointerLength = struct_pointerCount nd \<rparr>,
       structCtor =
         createDynamicStruct (bigint_toString 16 (node_id nd))
           (extractDisplayName (node_displayName nd))
           \<lparr> dataByteLength = struct_dataWordCount nd * 8,
             pointerLength = struct_pointerCount nd \<rparr>
           (parseFields (struct_fields nd)) \<rparr>"

definition not_a_struct_message :: "node \<Rightarrow> string" where
  "not_a_struct_message nd =
     ''Node '' @ extractDisplayName (node_displayName nd) @ '' (''
       @ bigint_toString 10 (node_id nd) @ '') is not a struct''"

definition not_found_message :: "int \<Rightarrow> string" where
  "not_found_message ident =
     ''Schema with ID '' @ bigint_toString 10 ident @ '' not found. Did you call loadDynamic()?''"

text \<open>Sample inputs for the closed instances below.\<close>

definition tagged :: "nat \<Rightarrow> capnp_type" where
  "tagged typeWhich = \<lparr> type_which = typeWhich, struct_typeId = 0, list_elementType_which = 0 \<rparr>"

definition int32_type :: capnp_type where
  "int32_type = \<lparr> type_which = Type_INT32, struct_typeId = 0, list_elementType_which = 0 \<rparr>"

definition zeroed_instance :: "nat \<Rightarrow> nat \<Rightarrow> StructInst" where
  "zeroed_instance dataBytes pointers =
     \<lparr> inst_own = [], inst_proto = initial_prototype,
       inst_data = replicate dataBytes 0, inst_ptrs = replicate pointers PtrNull \<rparr>"

definition struct_node :: "int \<Rightarrow> string \<Rightarrow> field list \<Rightarrow> node" where
  "struct_node ident nm fl =
     \<lparr> node_id = ident, node_displayName = nm, node_isStruct = True,
       struct_dataWordCount = 1, struct_pointerCount = 1, struct_fields = fl \<rparr>"

definition enum_node :: "int \<Rightarrow> string \<Rightarrow> node" where
  "enum_node ident nm =
     \<lparr> node_id = ident, node_displayName = nm, node_isStruct = False,
       struct_dataWordCount = 0, struct_pointerCount = 0, struct_fields = [] \<rparr>"

definition int32_field :: "string \<Rightarrow> nat \<Rightarrow> field" where
  "int32_field nm off = \<lparr> field_name = nm, field_union = Slot off int32_type \<rparr>"

definition text_field :: "string \<Rightarrow> nat \<Rightarrow> field" where
  "text_field nm off = \<lparr> field_name = nm, field_union = Slot off (tagged Type_TEXT) \<rparr>"

definition void_field :: "string \<Rightarrow> field" where
  "void_field nm = \<lparr> field_name = nm, field_union = Slot 0 (tagged Type_VOID) \<rparr>"

definition person_node :: node where
  "person_node = struct_node 1 ''demo.capnp:Person'' [int32_field ''id'' 0, text_field ''name'' 0]"

definition marker_node :: node where
  "marker_node = struct_node 2 ''demo.capnp:Marker'' [void_field ''nothing'']"

definition ghost_instance :: StructInst where
  "ghost_instance =
     \<lparr> inst_own = [],
       inst_proto = [(''ghost'', Accessor GetUndefined (Some SetNoop)),
                     (''nothing'', Accessor (GetPointer 0) None)],
       inst_data = [], inst_ptrs = [PtrNull] \<rparr>"

definition sample_fields :: "field list" where
  "sample_fields =
     [int32_field ''a'' 2,
      \<lparr> field_name = ''g'', field_union = Group 77 \<rparr>,
      \<lparr> field_name = ''a'',
        field_union = Slot 0 \<lparr> type_which = Type_STRUCT, struct_typeId = 99,
                                list_elementType_which = 0 \<rparr> \<rparr>,
      \<lparr> field_name = ''xs'',
        field_union = Slot 1 \<lparr> type_which = Type_LIST, struct_typeId = 0,
                                list_elementType_which = Type_TEXT \<rparr> \<rparr>]"

text \<open>
  External objects that pass every assignment on, and a struct node with a field
  named \<^verbatim>\<open>__proto__\<close>.
\<close>

definition passes_on :: ext_objects where
  "passes_on w nm = Passes"

definition proto_named_node :: node where
  "proto_named_node =
     struct_node 3 ''demo.capnp:Odd'' [int32_field ''__proto__'' 9, text_field ''name'' 0]"

section \<open>Auxiliary lemmas\<close>

lemmas Type_defs =
  Type_VOID_def Type_BOOL_def Type_INT8_def Type_INT16_def Type_INT32_def
  Type_INT64_def Type_UINT8_def Type_UINT16_def Type_UINT32_def Type_UINT64_def
  Type_FLOAT32_def Type_FLOAT64_def Type_TEXT_def Type_DATA_def Type_LIST_def
  Type_ENUM_def Type_STRUCT_def Type_INTERFACE_def Type_ANY_POINTER_def

lemma known_tags_iff: "t \<in> set known_tags \<longleftrightarrow> t \<le> 18"
  unfolding known_tags_def Type_defs by (simp; arith)

lemma unknown_tag_label: "t \<notin> set known_tags \<Longrightarrow> typeToString t = ''unknown''"
  unfolding known_tags_iff typeToString_def Type_defs by simp

lemma unknown_tag_not_pointer: "t \<notin> set known_tags \<Longrightarrow> \<not> isPointerType t"
  unfolding known_tags_iff isPointerType_def Type_defs by simp

lemma unknown_tag_not_primitive: "t \<notin> set known_tags \<Longrightarrow> \<not> isPrimitiveType t"
  unfolding known_tags_iff isPrimitiveType_def Type_defs by simp

lemma slotFieldInfo_simps:
  "fi_name (slotFieldInfo nm off ty) = nm"
  "fi_offset (slotFieldInfo nm off ty) = off"
  "fi_type (slotFieldInfo nm off ty) = typeToString (type_which ty)"
  "isPointer (slotFieldInfo nm off ty) = isPointerType (type_which ty)"
  "isPrimitive (slotFieldInfo nm off ty) = isPrimitiveType (type_which ty)"
  "isText (slotFieldInfo nm off ty) = (type_which ty = Type_TEXT)"
  "isData (slotFieldInfo nm off ty) = (type_which ty = Type_DATA)"
  "isList (slotFieldInfo nm off ty) = (type_which ty = Type_LIST)"
  "isStruct (slotFieldInfo nm off ty) = (type_which ty = Type_STRUCT)"
  "structTypeId (slotFieldInfo nm off ty) =
     (if type_which ty = Type_STRUCT then Some (struct_typeId ty) else None)"
  "listElementType (slotFieldInfo nm off ty) =
     (if type_which ty = Type_LIST then Some (typeToString (list_elementType_which ty)) else None)"
  by (simp_all add: slotFieldInfo_def Let_def)

lemma defineProperty_initial:
  "map_of (defineProperty initial_prototype nm d) nm = Some (Accessor (desc_get d) (desc_set d))"
  by (simp add: defineProperty_def initial_prototype_def update_conv')

lemma length_le_encode: "length (le_encode n v) = n"
  by (induction n arbitrary: v) auto

lemma le_decode_encode: "le_decode (le_encode n v) = v mod 256 ^ n"
proof (induction n arbitrary: v)
  case 0
  show ?case by simp
next
  case (Suc n)
  have byte: "unat (of_nat (v mod 256) :: 8 word) = v mod 256"
    by (simp add: unat_of_nat)
  have "le_decode (le_encode (Suc n) v) = v mod 256 + 256 * ((v div 256) mod 256 ^ n)"
    using Suc.IH [of "v div 256"] byte by simp
  also have "\<dots> = v mod 256 ^ Suc n"
    by (simp add: mod_mult2_eq)
  finally show ?case .
qed

lemma read_after_write:
  assumes "checkDataBounds off n s"
  shows "\<exists>s'. writeLE off n v s = Inr s' \<and> readLE off n s' = Inr (v mod 256 ^ n)
           \<and> inst_proto s' = inst_proto s \<and> inst_ptrs s' = inst_ptrs s \<and> inst_own s' = inst_own s
           \<and> length (inst_data s') = length (inst_data s)"
proof -
  let ?d = "inst_data s"
  let ?d' = "take off ?d @ le_encode n v @ drop (off + n) ?d"
  from assms have le: "off + n \<le> length ?d" by (simp add: checkDataBounds_def)
  then have len: "length (take off ?d) = off" by simp
  have "drop off ?d' = le_encode n v @ drop (off + n) ?d"
    using len by simp
  then have tk: "take n (drop off ?d') = le_encode n v"
    by (simp add: length_le_encode)
  have ln: "length ?d' = length ?d" using le by (simp add: length_le_encode)
  have w: "writeLE off n v s = Inr (s\<lparr>inst_data := ?d'\<rparr>)"
    using assms by (simp add: writeLE_def)
  have r: "readLE off n (s\<lparr>inst_data := ?d'\<rparr>) = Inr (v mod 256 ^ n)"
    unfolding readLE_def checkDataBounds_def using le ln tk
    by (simp add: le_decode_encode)
  show ?thesis
    using w r ln by simp
qed

lemma signed_of_unsigned_of:
  assumes "0 < n" "- (2 ^ (8 * n - 1)) \<le> v" "v < 2 ^ (8 * n - 1)"
  shows "signed_of n (unsigned_of n v) = v"
proof -
  define h :: int where "h = 2 ^ (8 * n - 1)"
  have "8 * n = Suc (8 * n - 1)" using assms(1) by simp
  then have "(2::int) ^ (8 * n) = 2 ^ Suc (8 * n - 1)" by simp
  then have pw: "(2::int) ^ (8 * n) = 2 * h" by (simp add: h_def)
  have hn: "(2::nat) ^ (8 * n - 1) = nat h" by (simp add: h_def)
  have hpos: "0 < h" by (simp add: h_def)
  from assms have lo: "- h \<le> v" and hi: "v < h" by (simp_all add: h_def)
  show ?thesis
  proof (cases "0 \<le> v")
    case True
    then have "v mod (2 * h) = v" using hi by simp
    then show ?thesis using True hi hpos
      unfolding signed_of_def unsigned_of_def pw hn by simp
  next
    case False
    have "(v + 2 * h) mod (2 * h) = v + 2 * h"
      by (rule mod_pos_pos_trivial) (use lo False hpos in simp_all)
    then have m: "v mod (2 * h) = v + 2 * h" by simp
    have "\<not> (nat (v + 2 * h) < nat h)" using lo hpos by simp
    then show ?thesis using lo hpos
      unfolding signed_of_def unsigned_of_def pw hn m by simp
  qed
qed

lemma primitive_descriptor:
  assumes "isPrimitiveType (type_which ty)"
  shows "fieldDescriptor (slotFieldInfo nm k ty) =
           \<lparr> desc_get = utils_getter (type_which ty) (field_position (type_which ty) k),
             desc_set = Some (utils_setter (type_which ty) (field_position (type_which ty) k)) \<rparr>"
  using assms
  unfolding isPrimitiveType_def
  by (elim disjE)
     (simp_all add: fieldDescriptor_def slotFieldInfo_simps isPrimitiveType_def typeToString_def
        createPrimitiveGetter_def createPrimitiveSetter_def calculateByteOffset_def typeSizes_def
        utils_getter_def utils_setter_def field_position_def byte_width_def Type_defs)

lemma int32_write_read:
  assumes "checkDataBounds off 4 s" "- (2 ^ 31) \<le> v" "v < 2 ^ 31"
  shows "\<exists>s'. call_setter (SetInt32 off) (VNumber v) s = Inr s'
            \<and> call_getter (GetInt32 off) s' = Inr (VNumber v)"
proof -
  from read_after_write [OF assms(1), of "unsigned_of 4 v"]
  obtain s' where w: "writeLE off 4 (unsigned_of 4 v) s = Inr s'"
    and r: "readLE off 4 s' = Inr (unsigned_of 4 v mod 256 ^ 4)" by blast
  have "unsigned_of 4 v < 256 ^ 4"
    by (simp add: unsigned_of_def nat_less_iff)
  then have r': "readLE off 4 s' = Inr (unsigned_of 4 v)" using r by simp
  have "signed_of 4 (unsigned_of 4 v) = v"
    by (rule signed_of_unsigned_of) (use assms in simp_all)
  then show ?thesis
    using w r' by (simp add: taking_def returning_def getSigned_def)
qed

lemma split_nonempty: "split sep s \<noteq> []"
  by (induction s) (auto split: list.splits)

lemma split_no_sep: "sep \<notin> set s \<Longrightarrow> split sep s = [s]"
  by (induction s) auto

lemma split_single: "split sep s = [p] \<Longrightarrow> sep \<notin> set s"
proof (induction s arbitrary: p)
  case Nil
  then show ?case by simp
next
  case (Cons c cs)
  show ?case
  proof (cases "c = sep")
    case True
    with Cons.prems split_nonempty [of sep cs] show ?thesis by simp
  next
    case False
    obtain q qs where q: "split sep cs = q # qs"
      using split_nonempty [of sep cs] by (cases "split sep cs") auto
    with Cons.prems False have "qs = []" by simp
    with q Cons.IH have "sep \<notin> set cs" by simp
    with False show ?thesis by simp
  qed
qed

lemma last_split: "last (split sep s) = rev (takeWhile (\<lambda>c. c \<noteq> sep) (rev s))"
proof (induction s)
  case Nil
  show ?case by simp
next
  case (Cons c cs)
  show ?case
  proof (cases "c = sep")
    case True
    then show ?thesis
      using Cons.IH split_nonempty [of sep cs] by (simp add: takeWhile_append)
  next
    case False
    obtain q qs where q: "split sep cs = q # qs"
      using split_nonempty [of sep cs] by (cases "split sep cs") auto
    show ?thesis
    proof (cases "sep \<in> set cs")
      case True
      then have "qs \<noteq> []" using q split_single [of sep cs q] by auto
      then have "last (split sep (c # cs)) = last (split sep cs)"
        using q False by simp
      moreover have "takeWhile (\<lambda>c. c \<noteq> sep) (rev cs @ [c]) = takeWhile (\<lambda>c. c \<noteq> sep) (rev cs)"
        using True by (auto simp add: takeWhile_append)
      ultimately show ?thesis using Cons.IH by simp
    next
      case nosep: False
      then have A: "split sep (c # cs) = [c # cs]"
        using False split_no_sep [of sep "c # cs"] by simp
      have L: "last (split sep (c # cs)) = c # cs"
        unfolding A by simp
      have B: "takeWhile (\<lambda>c. c \<noteq> sep) (rev cs @ [c]) = rev cs @ [c]"
        using nosep False by (simp add: takeWhile_append)
      have R: "rev (takeWhile (\<lambda>c. c \<noteq> sep) (rev (c # cs))) = c # cs"
        using B by simp
      show ?thesis unfolding L R ..
    qed
  qed
qed

lemma extractDisplayName_eq:
  "extractDisplayName s = (if after_final_colon s \<noteq> [] then after_final_colon s else s)"
proof -
  have "split (CHR '':'') s ! (length (split (CHR '':'') s) - 1) = last (split (CHR '':'') s)"
    using split_nonempty [of "CHR '':''" s] by (simp add: last_conv_nth)
  then show ?thesis
    by (simp add: extractDisplayName_def Let_def last_split after_final_colon_def)
qed

lemma digits_radix_small: "n < b \<Longrightarrow> digits_radix b n = [digit_char n]"
  by (subst digits_radix.simps) simp

lemma digits_radix_large:
  "2 \<le> b \<Longrightarrow> \<not> n < b \<Longrightarrow> digits_radix b n = digits_radix b (n div b) @ [digit_char (n mod b)]"
  by (subst digits_radix.simps) simp

lemma digits_radix_nonempty: "digits_radix b n \<noteq> []"
  by (subst digits_radix.simps) simp

lemma digit_val_digit_char: "d < 36 \<Longrightarrow> digit_val (digit_char d) = d"
  by (simp add: digit_val_def digit_char_def Let_def)

lemma digit_char_not_minus: "d < 36 \<Longrightarrow> digit_char d \<noteq> CHR ''-''"
proof
  assume d: "d < 36" and "digit_char d = CHR ''-''"
  then have "digit_val (digit_char d) = digit_val (CHR ''-'')" by simp
  moreover have "of_char (digit_char d) = (if d < 10 then 48 + d else 87 + d)"
    using d by (simp add: digit_char_def)
  moreover have "(of_char (CHR ''-'') :: nat) = 45" by simp
  ultimately show False using \<open>digit_char d = CHR ''-''\<close> by (simp split: if_splits)
qed

lemma radix_val_snoc: "radix_val b (s @ [c]) = radix_val b s * b + digit_val c"
  by (simp add: radix_val_def)

lemma radix_val_digits: "2 \<le> b \<Longrightarrow> b \<le> 36 \<Longrightarrow> radix_val b (digits_radix b n) = n"
proof (induction b n rule: digits_radix.induct)
  case (1 b n)
  show ?case
  proof (cases "n < b")
    case True
    then have "digits_radix b n = [digit_char n]" by (rule digits_radix_small)
    moreover have "n < 36" using True "1.prems" by simp
    ultimately show ?thesis
      by (simp add: radix_val_def digit_val_digit_char)
  next
    case False
    then have unf: "digits_radix b n = digits_radix b (n div b) @ [digit_char (n mod b)]"
      using "1.prems" by (simp add: digits_radix_large)
    have "0 < b" using "1.prems" by simp
    then have "n mod b < b" by simp
    then have "n mod b < 36" using "1.prems"(2) by (rule less_le_trans)
    then have dv: "digit_val (digit_char (n mod b)) = n mod b"
      by (rule digit_val_digit_char)
    have ih: "radix_val b (digits_radix b (n div b)) = n div b"
      using "1.IH" False "1.prems" by simp
    show ?thesis
      unfolding unf radix_val_snoc ih dv by simp
  qed
qed

lemma digits_radix_no_minus:
  "2 \<le> b \<Longrightarrow> b \<le> 36 \<Longrightarrow> CHR ''-'' \<notin> set (digits_radix b n)"
proof (induction b n rule: digits_radix.induct)
  case (1 b n)
  show ?case
  proof (cases "n < b")
    case True
    then have "digits_radix b n = [digit_char n]" by (rule digits_radix_small)
    moreover have "n < 36" using True "1.prems" by simp
    ultimately show ?thesis using digit_char_not_minus [of n] by auto
  next
    case False
    then have unf: "digits_radix b n = digits_radix b (n div b) @ [digit_char (n mod b)]"
      using "1.prems" by (simp add: digits_radix_large)
    have "0 < b" using "1.prems" by simp
    then have "n mod b < b" by simp
    then have "n mod b < 36" using "1.prems"(2) by (rule less_le_trans)
    then have "digit_char (n mod b) \<noteq> CHR ''-''" by (rule digit_char_not_minus)
    moreover have "CHR ''-'' \<notin> set (digits_radix b (n div b))"
      using "1.IH" False "1.prems" by simp
    ultimately show ?thesis unfolding unf by auto
  qed
qed

lemma bigint_toString_inj:
  assumes "bigint_toString 10 i = bigint_toString 10 j"
  shows "i = j"
proof -
  have nm: "\<And>n. hd (digits_radix 10 n) \<noteq> CHR ''-''"
  proof -
    fix n
    have "digits_radix 10 n \<noteq> []" by (rule digits_radix_nonempty)
    then have "hd (digits_radix 10 n) \<in> set (digits_radix 10 n)" by simp
    then show "hd (digits_radix 10 n) \<noteq> CHR ''-''"
      using digits_radix_no_minus [of 10 n] by auto
  qed
  have inj: "\<And>m n. digits_radix 10 m = digits_radix 10 n \<Longrightarrow> m = n"
  proof -
    fix m n :: nat
    assume "digits_radix 10 m = digits_radix 10 n"
    then have "radix_val 10 (digits_radix 10 m) = radix_val 10 (digits_radix 10 n)" by simp
    then show "m = n" by (simp add: radix_val_digits)
  qed
  show ?thesis
  proof (cases "i < 0")
    case True
    show ?thesis
    proof (cases "j < 0")
      case jn: True
      with True assms have "digits_radix 10 (nat (- i)) = digits_radix 10 (nat (- j))"
        by (simp add: bigint_toString_def)
      then have "nat (- i) = nat (- j)" by (rule inj)
      with True jn show ?thesis by simp
    next
      case False
      with True assms have "CHR ''-'' # digits_radix 10 (nat (- i)) = digits_radix 10 (nat j)"
        by (simp add: bigint_toString_def)
      then have "hd (digits_radix 10 (nat j)) = CHR ''-''" by (metis list.sel(1))
      with nm show ?thesis by blast
    qed
  next
    case False
    show ?thesis
    proof (cases "j < 0")
      case True
      with False assms have "digits_radix 10 (nat i) = CHR ''-'' # digits_radix 10 (nat (- j))"
        by (simp add: bigint_toString_def)
      then have "hd (digits_radix 10 (nat i)) = CHR ''-''" by simp
      with nm show ?thesis by blast
    next
      case jp: False
      with False assms have "digits_radix 10 (nat i) = digits_radix 10 (nat j)"
        by (simp add: bigint_toString_def)
      then have "nat i = nat j" by (rule inj)
      with False jp show ?thesis by simp
    qed
  qed
qed

lemma slotFieldInfo_spec:
  "field_union f = Slot off ty \<Longrightarrow> slotFieldInfo (field_name f) off ty = spec_descriptor f"
  by (simp add: slotFieldInfo_def spec_descriptor_def Let_def)

lemma parseFields_loop_spec:
  "parseFields_loop fl acc = acc @ map spec_descriptor (filter field_isSlot fl)"
  by (induction fl arbitrary: acc) (auto split: field_union.splits simp: slotFieldInfo_spec)

lemma addFieldAccessors_initial:
  "map_of (addFieldAccessors initial_prototype fld) (fi_name fld)
     = Some (Accessor (desc_get (fieldDescriptor fld)) (desc_set (fieldDescriptor fld)))"
  by (simp add: addFieldAccessors_def defineProperty_initial)

lemma pointer_kind_descriptor:
  "\<not> isPrimitiveType (type_which ty) \<Longrightarrow>
   fieldDescriptor (slotFieldInfo nm off ty) =
     (if type_which ty = Type_TEXT then \<lparr> desc_get = GetText off, desc_set = Some (SetText off) \<rparr>
      else if type_which ty = Type_DATA then \<lparr> desc_get = GetData off, desc_set = None \<rparr>
      else \<lparr> desc_get = GetPointer off, desc_set = None \<rparr>)"
  by (simp add: fieldDescriptor_def slotFieldInfo_simps)

lemma pointer_tags_not_primitive:
  "t = Type_TEXT \<or> t = Type_DATA \<or> t = Type_LIST \<or> t = Type_STRUCT \<Longrightarrow> \<not> isPrimitiveType t"
  by (auto simp: isPrimitiveType_def Type_defs)

lemma loadDynamic_struct:
  "node_isStruct nd \<Longrightarrow>
   loadDynamic nd schemas =
     (Inr (loaded_schema nd),
      AList.update (bigint_toString 10 (node_id nd)) (loaded_schema nd) schemas)"
  by (simp add: loadDynamic_def loaded_schema_def Let_def)

lemma loadDynamic_not_struct:
  "\<not> node_isStruct nd \<Longrightarrow>
   loadDynamic nd schemas = (Inl (NotAStructError (not_a_struct_message nd)), schemas)"
  by (simp add: loadDynamic_def not_a_struct_message_def Let_def)

lemma get_eq:
  "get schemas ident =
     (case map_of schemas (bigint_toString 10 ident) of
        None \<Rightarrow> Inl (SchemaNotFoundError (not_found_message ident))
      | Some schema \<Rightarrow> Inr schema)"
  by (simp add: get_def not_found_message_def split: option.splits)

lemma get_after_load:
  "node_isStruct nd \<Longrightarrow> get (snd (loadDynamic nd schemas)) (node_id nd) = Inr (loaded_schema nd)"
  by (simp add: loadDynamic_struct get_eq update_conv')

lemma map_of_loadAll_Some:
  "map_of (loadAll nds schemas) k = Some sch \<Longrightarrow>
   map_of schemas k = Some sch
   \<or> (\<exists>nd\<in>set nds. node_isStruct nd \<and> bigint_toString 10 (node_id nd) = k \<and> sch = loaded_schema nd)"
proof (induction nds arbitrary: schemas)
  case Nil
  then show ?case by simp
next
  case (Cons nd nds)
  from Cons.prems have "map_of (loadAll nds (snd (loadDynamic nd schemas))) k = Some sch" by simp
  from Cons.IH [OF this] show ?case
  proof
    assume m: "map_of (snd (loadDynamic nd schemas)) k = Some sch"
    show ?thesis
    proof (cases "node_isStruct nd")
      case True
      with m show ?thesis
        by (auto simp: loadDynamic_struct update_conv' split: if_splits)
    next
      case False
      with m show ?thesis by (simp add: loadDynamic_not_struct)
    qed
  next
    assume "\<exists>nd\<in>set nds. node_isStruct nd \<and> bigint_toString 10 (node_id nd) = k \<and> sch = loaded_schema nd"
    then show ?thesis by auto
  qed
qed

lemma map_of_loadAll_None:
  "map_of (loadAll nds schemas) k = None \<longleftrightarrow>
   map_of schemas k = None
   \<and> (\<forall>nd\<in>set nds. node_isStruct nd \<longrightarrow> bigint_toString 10 (node_id nd) \<noteq> k)"
proof (induction nds arbitrary: schemas)
  case Nil
  show ?case by simp
next
  case (Cons nd nds)
  show ?case
  proof (cases "node_isStruct nd")
    case True
    then show ?thesis
      using Cons.IH [of "snd (loadDynamic nd schemas)"]
      by (auto simp: loadDynamic_struct update_conv')
  next
    case False
    then show ?thesis
      using Cons.IH [of "snd (loadDynamic nd schemas)"]
      by (auto simp: loadDynamic_not_struct)
  qed
qed

lemma load_twice:
  assumes "node_isStruct n1" "node_isStruct n2" "node_id n1 = node_id n2"
  shows "snd (loadDynamic n2 (snd (loadDynamic n1 schemas))) = snd (loadDynamic n2 schemas)"
  using assms by (simp add: loadDynamic_struct)

lemma schema_getter_defined:
  "desc_get (fieldDescriptor (slotFieldInfo nm off ty)) \<noteq> GetUndefined"
proof (cases "isPrimitiveType (type_which ty)")
  case True
  have "utils_getter w p \<noteq> GetUndefined" for w p
    by (simp add: utils_getter_def)
  then show ?thesis using primitive_descriptor [OF True, of nm off] by simp
next
  case False
  then show ?thesis using pointer_kind_descriptor [OF False, of nm off] by simp
qed

lemma void_descriptor:
  "type_which ty = Type_VOID \<or> type_which ty \<notin> set known_tags \<Longrightarrow>
   fieldDescriptor (slotFieldInfo nm off ty) = \<lparr> desc_get = GetPointer off, desc_set = None \<rparr>"
proof -
  assume h: "type_which ty = Type_VOID \<or> type_which ty \<notin> set known_tags"
  then have np: "\<not> isPrimitiveType (type_which ty)"
    using unknown_tag_not_primitive by (auto simp: isPrimitiveType_def Type_defs)
  from h have "type_which ty \<noteq> Type_TEXT" "type_which ty \<noteq> Type_DATA"
    unfolding known_tags_iff Type_defs by auto
  then show ?thesis using pointer_kind_descriptor [OF np, of nm off] by simp
qed

lemma marker_prototype:
  "ctor_prototype (structCtor (loaded_schema marker_node)) =
     [(''constructor'', Method), (''toString'', Method),
      (''nothing'', Accessor (GetPointer 0) None)]"
  by (simp add: marker_node_def struct_node_def loaded_schema_def createDynamicStruct_def
        parseFields_def void_field_def tagged_def
        addFieldAccessors_def defineProperty_def initial_prototype_def
        fieldDescriptor_def slotFieldInfo_simps isPrimitiveType_def typeToString_def Type_defs)

lemma update_absent: "map_of al k = None \<Longrightarrow> AList.update k v al = al @ [(k, v)]"
  by (induction al) auto

lemma assign_keys:
  assumes "assign ext obj key v = Inr obj'"
  shows "fst ` set (obj_props obj') \<subseteq> insert key (fst ` set (obj_props obj))"
proof -
  have u: "fst ` set (AList.update key v (obj_props obj)) \<subseteq> insert key (fst ` set (obj_props obj))"
    by (simp add: dom_update)
  have "obj_props obj' = AList.update key v (obj_props obj)
        \<or> obj_props obj' = obj_props obj @ [(key, v)]
        \<or> obj_props obj' = obj_props obj"
    using assms
    by (auto simp: assign_def assign_via_Object_prototype_def
             split: if_splits obj_prototype.splits ext_assign.splits)
  then show ?thesis
  proof (elim disjE)
    assume "obj_props obj' = AList.update key v (obj_props obj)"
    with u show ?thesis by simp
  next
    assume "obj_props obj' = obj_props obj @ [(key, v)]"
    then show ?thesis by auto
  next
    assume "obj_props obj' = obj_props obj"
    then show ?thesis by auto
  qed
qed

lemma toObject_loop_keys:
  "toObject_loop ext s keys obj = Inr obj' \<Longrightarrow> k \<in> fst ` set (obj_props obj') \<Longrightarrow>
   k \<in> fst ` set (obj_props obj)
   \<or> (k \<in> set keys \<and> \<not> (\<exists>v. readProperty s k = Inr v \<and> (is_function v \<or> v = VUndefined)))"
proof (induction keys arbitrary: obj)
  case Nil
  then show ?case by simp
next
  case (Cons key keys)
  from Cons.prems(1) obtain mid where
    step: "(case readProperty s key of
              Inr v \<Rightarrow>
                if is_function v \<or> v = VUndefined then Inr obj
                else (case assign ext obj key v of
                        Inr obj' \<Rightarrow> Inr obj'
                      | Inl e \<Rightarrow> assign ext obj key VNull)
            | Inl e \<Rightarrow> assign ext obj key VNull) = Inr mid"
    and rest: "toObject_loop ext s keys mid = Inr obj'"
    by (auto split: sum.splits)
  from Cons.IH [OF rest Cons.prems(2)] show ?case
  proof
    assume k: "k \<in> fst ` set (obj_props mid)"
    show ?thesis
    proof (cases "\<exists>v. readProperty s key = Inr v \<and> (is_function v \<or> v = VUndefined)")
      case True
      with step have "mid = obj" by auto
      with k show ?thesis by simp
    next
      case False
      have "\<exists>v. assign ext obj key v = Inr mid"
        using step False by (auto split: sum.splits if_splits)
      then obtain v where "assign ext obj key v = Inr mid" by blast
      from assign_keys [OF this] k have "k = key \<or> k \<in> fst ` set (obj_props obj)" by auto
      with False show ?thesis by auto
    qed
  next
    assume "k \<in> set keys \<and> \<not> (\<exists>v. readProperty s k = Inr v \<and> (is_function v \<or> v = VUndefined))"
    then show ?thesis by simp
  qed
qed

lemma toObject_undefined_absent:
  assumes "toObject ext s schema = Inr obj" "readProperty s key = Inr VUndefined"
  shows "map_of (obj_props obj) key = None"
proof (rule ccontr)
  assume "map_of (obj_props obj) key \<noteq> None"
  then have "key \<in> fst ` set (obj_props obj)"
    by (metis domIff dom_map_of_conv_image_fst)
  from toObject_loop_keys [OF assms(1) [unfolded toObject_def] this] assms(2)
  show False by (simp add: empty_object_def)
qed

lemma assign_plain:
  "key \<noteq> ''__proto__'' \<Longrightarrow> obj_prototype obj = ObjectPrototype \<Longrightarrow>
   assign ext obj key v = Inr (obj\<lparr>obj_props := AList.update key v (obj_props obj)\<rparr>)"
  by (simp add: assign_def assign_via_Object_prototype_def update_absent)

lemma toObject_loop_plain:
  "''__proto__'' \<notin> set keys \<Longrightarrow> obj_prototype obj = ObjectPrototype \<Longrightarrow>
   \<exists>obj'. toObject_loop ext s keys obj = Inr obj' \<and> obj_prototype obj' = ObjectPrototype
     \<and> (\<forall>k. map_of (obj_props obj') k =
           (if k \<in> set keys then
              (case readProperty s k of
                 Inl e \<Rightarrow> Some VNull
               | Inr v \<Rightarrow> if is_function v \<or> v = VUndefined then map_of (obj_props obj) k else Some v)
            else map_of (obj_props obj) k))"
proof (induction keys arbitrary: obj)
  case Nil
  then show ?case by simp
next
  case (Cons key keys)
  then have ne: "key \<noteq> ''__proto__''" and rest: "''__proto__'' \<notin> set keys" by auto
  note a = assign_plain [OF ne Cons.prems(2), of ext]
  show ?case
  proof (cases "readProperty s key")
    case (Inl e)
    let ?mid = "obj\<lparr>obj_props := AList.update key VNull (obj_props obj)\<rparr>"
    have p: "obj_prototype ?mid = ObjectPrototype" using Cons.prems(2) by simp
    from Cons.IH [OF rest p] show ?thesis
      using Inl a [of VNull] by (auto simp: update_conv' split: sum.splits)
  next
    case (Inr v)
    show ?thesis
    proof (cases "is_function v \<or> v = VUndefined")
      case True
      from Cons.IH [OF rest Cons.prems(2)] show ?thesis
        using Inr True by (auto split: sum.splits)
    next
      case False
      let ?mid = "obj\<lparr>obj_props := AList.update key v (obj_props obj)\<rparr>"
      have p: "obj_prototype ?mid = ObjectPrototype" using Cons.prems(2) by simp
      from Cons.IH [OF rest p] show ?thesis
        using Inr False a [of v] by (auto simp: update_conv' split: sum.splits)
    qed
  qed
qed

lemma not_index_nothing: "\<not> is_array_index ''nothing''" "\<not> is_array_index ''ghost''"
  "\<not> is_array_index ''__proto__''" "\<not> is_array_index ''name''" "\<not> is_array_index ''id''"
  by (simp_all add: is_array_index_def)

lemma proto_named_prototype:
  "ctor_prototype (structCtor (loaded_schema proto_named_node)) =
     [(''constructor'', Method), (''toString'', Method),
      (''__proto__'', Accessor (GetInt32 36) (Some (SetInt32 36))),
      (''name'', Accessor (GetText 0) (Some (SetText 0)))]"
  by (simp add: proto_named_node_def struct_node_def loaded_schema_def createDynamicStruct_def
        parseFields_def int32_field_def text_field_def int32_type_def tagged_def
        addFieldAccessors_def defineProperty_def initial_prototype_def
        fieldDescriptor_def slotFieldInfo_simps isPrimitiveType_def typeToString_def
        createPrimitiveGetter_def createPrimitiveSetter_def calculateByteOffset_def
        typeSizes_def Type_defs)

lemma toObject_without_proto_key:
  assumes "''__proto__'' \<notin> set (Object_keys (inst_proto s))"
  shows "\<exists>obj. toObject ext s schema = Inr obj \<and> obj_prototype obj = ObjectPrototype
     \<and> (\<forall>k. map_of (obj_props obj) k =
           (if k \<in> set (Object_keys (inst_proto s)) then
              (case readProperty s k of
                 Inl e \<Rightarrow> Some VNull
               | Inr v \<Rightarrow> if is_function v \<or> v = VUndefined then None else Some v)
            else None))"
proof -
  have p: "obj_prototype empty_object = ObjectPrototype" by (simp add: empty_object_def)
  from toObject_loop_plain [OF assms p, of ext s]
  show ?thesis
    unfolding toObject_def by (auto simp: empty_object_def split: sum.splits)
qed

lemma le_decode_zeros: "le_decode (replicate n 0) = 0"
  by (induction n) auto

section \<open>The claims\<close>

text \<open>
  C1, as amended. For a struct node loaded by \<^verbatim>\<open>loadDynamic\<close>, a following
  \<^verbatim>\<open>get\<close> with the node's id returns the schema that the load stored, and its
  display name is the text after the final colon of the node's display name
  when that text is not empty; when it is empty (the display name ends with a
  colon, or is empty) the display name is kept whole.
\<close>

theorem display_name_after_load:
  assumes "node_isStruct nd"
  shows "fst (loadDynamic nd schemas) = Inr (loaded_schema nd)
       \<and> get (snd (loadDynamic nd schemas)) (node_id nd) = Inr (loaded_schema nd)
       \<and> schema_displayName (loaded_schema nd) =
           (if after_final_colon (node_displayName nd) = [] then node_displayName nd
            else after_final_colon (node_displayName nd))"
  using assms get_after_load [OF assms, of schemas]
  by (simp add: loadDynamic_struct loaded_schema_def extractDisplayName_eq)

text \<open>An instance: \<^verbatim>\<open>"pkg.capnp:Foo.Bar"\<close> gives \<^verbatim>\<open>"Foo.Bar"\<close>.\<close>

theorem display_name_after_load_witness:
  "node_isStruct (struct_node 5 ''pkg.capnp:Foo.Bar'' [])
   \<and> get (snd (loadDynamic (struct_node 5 ''pkg.capnp:Foo.Bar'' []) empty_registry)) 5
       = Inr (loaded_schema (struct_node 5 ''pkg.capnp:Foo.Bar'' []))
   \<and> schema_displayName (loaded_schema (struct_node 5 ''pkg.capnp:Foo.Bar'' [])) = ''Foo.Bar''"
proof -
  have s: "node_isStruct (struct_node 5 ''pkg.capnp:Foo.Bar'' [])"
    by (simp add: struct_node_def)
  have a: "after_final_colon ''pkg.capnp:Foo.Bar'' = ''Foo.Bar''"
    by (simp add: after_final_colon_def)
  show ?thesis
    using display_name_after_load [OF s, of empty_registry] s a
    by (simp add: struct_node_def)
qed

text \<open>
  C1 as first stated, "only the text after the final colon is kept, for every
  display name", fails for a display name that ends with a colon: the text after
  the final colon of \<^verbatim>\<open>"foo:"\<close> is empty, and the fallback
  \<^verbatim>\<open>|| fullName\<close> keeps \<^verbatim>\<open>"foo:"\<close>.
\<close>

theorem display_name_trailing_colon:
  "node_isStruct (struct_node 5 ''foo:'' [])
   \<and> schema_displayName (loaded_schema (struct_node 5 ''foo:'' [])) = ''foo:''
   \<and> get (snd (loadDynamic (struct_node 5 ''foo:'' []) empty_registry)) 5
       = Inr (loaded_schema (struct_node 5 ''foo:'' []))
   \<and> after_final_colon (node_displayName (struct_node 5 ''foo:'' [])) = []
   \<and> schema_displayName (loaded_schema (struct_node 5 ''foo:'' []))
       \<noteq> after_final_colon (node_displayName (struct_node 5 ''foo:'' []))"
  by (simp add: struct_node_def loaded_schema_def extractDisplayName_def after_final_colon_def
        loadDynamic_def get_def empty_registry_def Let_def)

text \<open>
  C2. After two loads of struct nodes with the same id, \<^verbatim>\<open>get\<close> of that id
  returns the schema of the second load, which is built from the second node
  alone (display name, size, accessors), and the registry is the one that the
  second load alone would have left: nothing of the first load remains.
\<close>

theorem reload_replaces:
  assumes "node_isStruct n1" "node_isStruct n2" "node_id n1 = node_id n2"
  shows "get (snd (loadDynamic n2 (snd (loadDynamic n1 schemas)))) (node_id n1)
           = Inr (loaded_schema n2)
       \<and> fst (loadDynamic n2 (snd (loadDynamic n1 schemas))) = Inr (loaded_schema n2)
       \<and> snd (loadDynamic n2 (snd (loadDynamic n1 schemas))) = snd (loadDynamic n2 schemas)
       \<and> schema_displayName (loaded_schema n2) = extractDisplayName (node_displayName n2)
       \<and> schema_size (loaded_schema n2)
           = \<lparr> dataByteLength = struct_dataWordCount n2 * 8,
               pointerLength = struct_pointerCount n2 \<rparr>
       \<and> ctor_prototype (structCtor (loaded_schema n2))
           = addAllAccessors initial_prototype (parseFields (struct_fields n2))"
proof -
  have g: "get (snd (loadDynamic n2 (snd (loadDynamic n1 schemas)))) (node_id n2)
             = Inr (loaded_schema n2)"
    by (rule get_after_load [OF assms(2)])
  have f: "fst (loadDynamic n2 (snd (loadDynamic n1 schemas))) = Inr (loaded_schema n2)"
    using assms(2) by (simp add: loadDynamic_struct)
  show ?thesis
    using g f load_twice [OF assms, of schemas] assms(3)
    by (simp add: loaded_schema_def createDynamicStruct_def)
qed

text \<open>An instance: a struct with two fields reloaded as an empty struct.\<close>

theorem reload_replaces_witness:
  "node_isStruct person_node
   \<and> node_isStruct (struct_node 1 ''demo.capnp:Empty'' [])
   \<and> node_id person_node = node_id (struct_node 1 ''demo.capnp:Empty'' [])
   \<and> get (snd (loadDynamic (struct_node 1 ''demo.capnp:Empty'' [])
                 (snd (loadDynamic person_node empty_registry)))) 1
       = Inr (loaded_schema (struct_node 1 ''demo.capnp:Empty'' []))
   \<and> schema_displayName (loaded_schema (struct_node 1 ''demo.capnp:Empty'' [])) = ''Empty''
   \<and> ctor_prototype (structCtor (loaded_schema (struct_node 1 ''demo.capnp:Empty'' [])))
       = initial_prototype"
proof -
  have a: "node_isStruct person_node" by (simp add: person_node_def struct_node_def)
  have b: "node_isStruct (struct_node 1 ''demo.capnp:Empty'' [])" by (simp add: struct_node_def)
  have c: "node_id person_node = node_id (struct_node 1 ''demo.capnp:Empty'' [])"
    by (simp add: person_node_def struct_node_def)
  have i: "node_id person_node = 1" by (simp add: person_node_def struct_node_def)
  have d: "extractDisplayName (node_displayName (struct_node 1 ''demo.capnp:Empty'' [])) = ''Empty''"
    by (simp add: struct_node_def extractDisplayName_def)
  have f: "parseFields (struct_fields (struct_node 1 ''demo.capnp:Empty'' [])) = []"
    by (simp add: struct_node_def parseFields_def)
  have g: "get (snd (loadDynamic (struct_node 1 ''demo.capnp:Empty'' [])
                       (snd (loadDynamic person_node empty_registry)))) (node_id person_node)
             = Inr (loaded_schema (struct_node 1 ''demo.capnp:Empty'' []))"
    using reload_replaces [OF a b c, of empty_registry] by (rule conjunct1)
  have n: "schema_displayName (loaded_schema (struct_node 1 ''demo.capnp:Empty'' [])) = ''Empty''"
    using d by (simp add: loaded_schema_def)
  have q: "ctor_prototype (structCtor (loaded_schema (struct_node 1 ''demo.capnp:Empty'' [])))
             = initial_prototype"
    using f by (simp add: loaded_schema_def createDynamicStruct_def)
  show ?thesis
    using g a b c n q unfolding i by blast
qed

text \<open>
  C3. For a node that is not a struct, \<^verbatim>\<open>loadDynamic\<close> fails with the
  not-a-struct error and returns the registry as it received it, so every
  \<^verbatim>\<open>get\<close> and \<^verbatim>\<open>getByName\<close> answers as before the call.
\<close>

theorem non_struct_load_fails:
  assumes "\<not> node_isStruct nd"
  shows "loadDynamic nd schemas = (Inl (NotAStructError (not_a_struct_message nd)), schemas)
       \<and> get (snd (loadDynamic nd schemas)) ident = get schemas ident
       \<and> getByName (snd (loadDynamic nd schemas)) nm = getByName schemas nm"
  using assms by (simp add: loadDynamic_not_struct)

text \<open>An instance: loading an enum node after a struct node.\<close>

theorem non_struct_load_fails_witness:
  "\<not> node_isStruct (enum_node 9 ''demo.capnp:Color'')
   \<and> loadDynamic (enum_node 9 ''demo.capnp:Color'') (snd (loadDynamic person_node empty_registry))
       = (Inl (NotAStructError (not_a_struct_message (enum_node 9 ''demo.capnp:Color''))),
          snd (loadDynamic person_node empty_registry))
   \<and> get (snd (loadDynamic (enum_node 9 ''demo.capnp:Color'')
                 (snd (loadDynamic person_node empty_registry)))) 1
       = Inr (loaded_schema person_node)"
proof -
  have a: "\<not> node_isStruct (enum_node 9 ''demo.capnp:Color'')" by (simp add: enum_node_def)
  have p: "node_isStruct person_node" by (simp add: person_node_def struct_node_def)
  have i: "node_id person_node = 1" by (simp add: person_node_def struct_node_def)
  have g: "get (snd (loadDynamic person_node empty_registry)) 1 = Inr (loaded_schema person_node)"
    using get_after_load [OF p, of empty_registry] i by simp
  show ?thesis
    using non_struct_load_fails [OF a, of "snd (loadDynamic person_node empty_registry)" 1 "''x''"] a g
    by simp
qed

text \<open>
  C4. On a fresh registry \<^verbatim>\<open>get\<close> fails for every id with the not-found
  error. After any sequence of loads it fails with that error for every id that no
  struct node of the sequence carries, and it succeeds, with the schema of a
  struct node of that id, for every id that one carries.
\<close>

theorem get_unloaded_fails:
  "get empty_registry ident = Inl (SchemaNotFoundError (not_found_message ident))
   \<and> ((\<forall>nd\<in>set nds. node_isStruct nd \<longrightarrow> node_id nd \<noteq> ident) \<longrightarrow>
        get (loadAll nds empty_registry) ident
          = Inl (SchemaNotFoundError (not_found_message ident)))
   \<and> ((\<exists>nd\<in>set nds. node_isStruct nd \<and> node_id nd = ident) \<longrightarrow>
        (\<exists>nd\<in>set nds. node_isStruct nd \<and> node_id nd = ident
           \<and> get (loadAll nds empty_registry) ident = Inr (loaded_schema nd)))"
proof -
  let ?k = "bigint_toString 10 ident"
  have e: "get empty_registry ident = Inl (SchemaNotFoundError (not_found_message ident))"
    by (simp add: get_eq empty_registry_def)
  have never: "get (loadAll nds empty_registry) ident
                 = Inl (SchemaNotFoundError (not_found_message ident))"
    if h: "\<forall>nd\<in>set nds. node_isStruct nd \<longrightarrow> node_id nd \<noteq> ident"
  proof -
    have "\<forall>nd\<in>set nds. node_isStruct nd \<longrightarrow> bigint_toString 10 (node_id nd) \<noteq> ?k"
      using h bigint_toString_inj by blast
    then have "map_of (loadAll nds empty_registry) ?k = None"
      by (simp add: map_of_loadAll_None empty_registry_def)
    then show ?thesis by (simp add: get_eq)
  qed
  have loaded: "\<exists>nd\<in>set nds. node_isStruct nd \<and> node_id nd = ident
           \<and> get (loadAll nds empty_registry) ident = Inr (loaded_schema nd)"
    if h: "\<exists>nd\<in>set nds. node_isStruct nd \<and> node_id nd = ident"
  proof -
    from h have "map_of (loadAll nds empty_registry) ?k \<noteq> None"
      unfolding map_of_loadAll_None by blast
    then obtain sch where m: "map_of (loadAll nds empty_registry) ?k = Some sch" by blast
    from map_of_loadAll_Some [OF m]
    obtain nd where nd: "nd \<in> set nds" "node_isStruct nd"
        "bigint_toString 10 (node_id nd) = ?k" "sch = loaded_schema nd"
      by (auto simp: empty_registry_def)
    from nd(3) have "node_id nd = ident" by (rule bigint_toString_inj)
    with nd m show ?thesis by (auto simp: get_eq)
  qed
  show ?thesis using e never loaded by blast
qed

text \<open>An instance: a struct with id 1 and an enum with id 9.\<close>

theorem get_unloaded_fails_witness:
  "get (loadAll [person_node, enum_node 9 ''demo.capnp:Color''] empty_registry) 9
     = Inl (SchemaNotFoundError (not_found_message 9))
   \<and> get (loadAll [person_node, enum_node 9 ''demo.capnp:Color''] empty_registry) 1
     = Inr (loaded_schema person_node)"
proof -
  have p: "node_isStruct person_node" "node_id person_node = 1"
    by (simp_all add: person_node_def struct_node_def)
  have e: "\<not> node_isStruct (enum_node 9 ''demo.capnp:Color'')" by (simp add: enum_node_def)
  show ?thesis
    using get_unloaded_fails [of 9 "[person_node, enum_node 9 ''demo.capnp:Color'']"]
          get_unloaded_fails [of 1 "[person_node, enum_node 9 ''demo.capnp:Color'']"]
          p e
    by auto
qed

text \<open>
  C5. For a primitive field descriptor the synthesized getter and setter address
  the buffer at a position fixed by the schema: the wire offset itself, as a bit
  index, for a boolean; the wire offset times the byte width of the type (1, 2, 4
  or 8) for every other primitive. An int32 field at wire offset \<open>k\<close> reads and
  writes at byte offset \<open>k * 4\<close>, and where those four bytes lie inside the data
  section, writing a value of the int32 range and reading it back gives that
  value.
\<close>

theorem primitive_accessor_offsets:
  assumes "isPrimitiveType (type_which ty)"
  shows "desc_get (fieldDescriptor (slotFieldInfo nm k ty))
           = utils_getter (type_which ty) (field_position (type_which ty) k)
       \<and> desc_set (fieldDescriptor (slotFieldInfo nm k ty))
           = Some (utils_setter (type_which ty) (field_position (type_which ty) k))
       \<and> (type_which ty = Type_BOOL \<longrightarrow>
            fieldDescriptor (slotFieldInfo nm k ty)
              = \<lparr> desc_get = GetBit k, desc_set = Some (SetBit k) \<rparr>)
       \<and> (type_which ty = Type_INT32 \<longrightarrow>
            fieldDescriptor (slotFieldInfo nm k ty)
              = \<lparr> desc_get = GetInt32 (k * 4), desc_set = Some (SetInt32 (k * 4)) \<rparr>
            \<and> (checkDataBounds (k * 4) 4 s \<and> - (2 ^ 31) \<le> v \<and> v < 2 ^ 31 \<longrightarrow>
                 (\<exists>s'. call_setter (SetInt32 (k * 4)) (VNumber v) s = Inr s'
                     \<and> call_getter (GetInt32 (k * 4)) s' = Inr (VNumber v))))"
proof -
  note d = primitive_descriptor [OF assms, of nm k]
  have bool: "type_which ty = Type_BOOL \<Longrightarrow>
      fieldDescriptor (slotFieldInfo nm k ty) = \<lparr> desc_get = GetBit k, desc_set = Some (SetBit k) \<rparr>"
    using d by (simp add: utils_getter_def utils_setter_def field_position_def)
  have i32: "type_which ty = Type_INT32 \<Longrightarrow>
      fieldDescriptor (slotFieldInfo nm k ty)
        = \<lparr> desc_get = GetInt32 (k * 4), desc_set = Some (SetInt32 (k * 4)) \<rparr>"
    using d by (simp add: utils_getter_def utils_setter_def field_position_def byte_width_def Type_defs)
  show ?thesis
    using d bool i32 int32_write_read [of "k * 4" s v] by simp
qed

text \<open>An instance: an int32 field at wire offset 1 of an eight-byte data section, value -5.\<close>

theorem primitive_accessor_offsets_witness:
  "isPrimitiveType (type_which int32_type)
   \<and> fieldDescriptor (slotFieldInfo ''id'' 1 int32_type)
       = \<lparr> desc_get = GetInt32 4, desc_set = Some (SetInt32 4) \<rparr>
   \<and> checkDataBounds 4 4 (zeroed_instance 8 0)
   \<and> (\<exists>s'. call_setter (SetInt32 4) (VNumber (- 5)) (zeroed_instance 8 0) = Inr s'
          \<and> call_getter (GetInt32 4) s' = Inr (VNumber (- 5)))"
proof -
  have p: "isPrimitiveType (type_which int32_type)"
    by (simp add: int32_type_def isPrimitiveType_def)
  have t: "type_which int32_type = Type_INT32" by (simp add: int32_type_def)
  have b: "checkDataBounds 4 4 (zeroed_instance 8 0)"
    by (simp add: checkDataBounds_def zeroed_instance_def)
  show ?thesis
    using primitive_accessor_offsets [OF p, of "''id''" 1 "zeroed_instance 8 0" "- 5"] p t b
    by simp
qed

text \<open>
  C6. Accessor synthesis by kind: a text field gets a getter and a setter at its
  pointer-slot index; a data field gets a getter only; a list or struct field
  gets a getter only, which returns the raw pointer of that slot; no setter is
  synthesized for data, list or struct fields. On a fresh prototype the property
  installed under the field's name has exactly that getter and setter.
\<close>

theorem pointer_kind_accessors:
  "(type_which ty = Type_TEXT \<longrightarrow>
      fieldDescriptor (slotFieldInfo nm off ty)
        = \<lparr> desc_get = GetText off, desc_set = Some (SetText off) \<rparr>)
   \<and> (type_which ty = Type_DATA \<longrightarrow>
      fieldDescriptor (slotFieldInfo nm off ty) = \<lparr> desc_get = GetData off, desc_set = None \<rparr>)
   \<and> (type_which ty = Type_LIST \<or> type_which ty = Type_STRUCT \<longrightarrow>
      fieldDescriptor (slotFieldInfo nm off ty) = \<lparr> desc_get = GetPointer off, desc_set = None \<rparr>
      \<and> call_getter (desc_get (fieldDescriptor (slotFieldInfo nm off ty))) s
          = (if off < length (inst_ptrs s) then Inr (VPointer (inst_ptrs s ! off))
             else Inl RangeError))
   \<and> map_of (addFieldAccessors initial_prototype (slotFieldInfo nm off ty)) nm
       = Some (Accessor (desc_get (fieldDescriptor (slotFieldInfo nm off ty)))
                        (desc_set (fieldDescriptor (slotFieldInfo nm off ty))))"
proof -
  have text_case: "type_which ty = Type_TEXT \<Longrightarrow>
      fieldDescriptor (slotFieldInfo nm off ty)
        = \<lparr> desc_get = GetText off, desc_set = Some (SetText off) \<rparr>"
    using pointer_kind_descriptor [of ty nm off] pointer_tags_not_primitive [of "type_which ty"]
    by simp
  have data_case: "type_which ty = Type_DATA \<Longrightarrow>
      fieldDescriptor (slotFieldInfo nm off ty) = \<lparr> desc_get = GetData off, desc_set = None \<rparr>"
    using pointer_kind_descriptor [of ty nm off] pointer_tags_not_primitive [of "type_which ty"]
    by (simp add: Type_defs)
  have ptr_case: "type_which ty = Type_LIST \<or> type_which ty = Type_STRUCT \<Longrightarrow>
      fieldDescriptor (slotFieldInfo nm off ty) = \<lparr> desc_get = GetPointer off, desc_set = None \<rparr>"
    using pointer_kind_descriptor [of ty nm off] pointer_tags_not_primitive [of "type_which ty"]
    by (auto simp: Type_defs)
  have run: "call_getter (GetPointer off) s
      = (if off < length (inst_ptrs s) then Inr (VPointer (inst_ptrs s ! off)) else Inl RangeError)"
    by (simp add: returning_def getPointer_def checkPointerBounds_def)
  have inst: "map_of (addFieldAccessors initial_prototype (slotFieldInfo nm off ty)) nm
       = Some (Accessor (desc_get (fieldDescriptor (slotFieldInfo nm off ty)))
                        (desc_set (fieldDescriptor (slotFieldInfo nm off ty))))"
    using addFieldAccessors_initial [of "slotFieldInfo nm off ty"] by (simp add: slotFieldInfo_simps)
  show ?thesis
    using text_case data_case ptr_case run inst by simp
qed

text \<open>An instance for each of the four kinds.\<close>

theorem pointer_kind_accessors_witness:
  "fieldDescriptor (slotFieldInfo ''name'' 0 (tagged Type_TEXT))
     = \<lparr> desc_get = GetText 0, desc_set = Some (SetText 0) \<rparr>
   \<and> fieldDescriptor (slotFieldInfo ''blob'' 1 (tagged Type_DATA))
     = \<lparr> desc_get = GetData 1, desc_set = None \<rparr>
   \<and> fieldDescriptor (slotFieldInfo ''items'' 2 (tagged Type_LIST))
     = \<lparr> desc_get = GetPointer 2, desc_set = None \<rparr>
   \<and> fieldDescriptor (slotFieldInfo ''child'' 3 (tagged Type_STRUCT))
     = \<lparr> desc_get = GetPointer 3, desc_set = None \<rparr>"
  using pointer_kind_accessors [of "tagged Type_TEXT" "''name''" 0]
        pointer_kind_accessors [of "tagged Type_DATA" "''blob''" 1]
        pointer_kind_accessors [of "tagged Type_LIST" "''items''" 2]
        pointer_kind_accessors [of "tagged Type_STRUCT" "''child''" 3]
  by (simp add: tagged_def)

text \<open>
  C7. The classifier answers for every numeric tag. The label is "unknown"
  exactly for the tags outside the closed set; such a tag is neither a pointer
  type nor a primitive type, and a field of such a type gets the raw-pointer
  fallback getter and no setter.
\<close>

theorem unknown_tag_fallback:
  "(typeToString typeWhich = ''unknown'' \<longleftrightarrow> typeWhich \<notin> set known_tags)
   \<and> (typeWhich \<notin> set known_tags \<and> type_which ty = typeWhich \<longrightarrow>
        \<not> isPointerType typeWhich \<and> \<not> isPrimitiveType typeWhich
        \<and> fi_type (slotFieldInfo nm off ty) = ''unknown''
        \<and> \<not> isPointer (slotFieldInfo nm off ty) \<and> \<not> isPrimitive (slotFieldInfo nm off ty)
        \<and> fieldDescriptor (slotFieldInfo nm off ty)
            = \<lparr> desc_get = GetPointer off, desc_set = None \<rparr>
        \<and> map_of (addFieldAccessors initial_prototype (slotFieldInfo nm off ty)) nm
            = Some (Accessor (GetPointer off) None))"
proof -
  have "typeWhich \<in> set known_tags \<Longrightarrow> typeToString typeWhich \<noteq> ''unknown''"
    unfolding known_tags_def by (auto simp: typeToString_def Type_defs)
  then have lab: "typeToString typeWhich = ''unknown'' \<longleftrightarrow> typeWhich \<notin> set known_tags"
    using unknown_tag_label [of typeWhich] by blast
  have rest: "\<not> isPointerType typeWhich \<and> \<not> isPrimitiveType typeWhich
        \<and> fi_type (slotFieldInfo nm off ty) = ''unknown''
        \<and> \<not> isPointer (slotFieldInfo nm off ty) \<and> \<not> isPrimitive (slotFieldInfo nm off ty)
        \<and> fieldDescriptor (slotFieldInfo nm off ty)
            = \<lparr> desc_get = GetPointer off, desc_set = None \<rparr>
        \<and> map_of (addFieldAccessors initial_prototype (slotFieldInfo nm off ty)) nm
            = Some (Accessor (GetPointer off) None)"
    if u: "typeWhich \<notin> set known_tags" and t: "type_which ty = typeWhich"
  proof -
    have np: "\<not> isPrimitiveType (type_which ty)" using u t unknown_tag_not_primitive by simp
    have tags: "type_which ty \<noteq> Type_TEXT" "type_which ty \<noteq> Type_DATA"
      using u t unfolding known_tags_iff Type_defs by simp_all
    have d: "fieldDescriptor (slotFieldInfo nm off ty) = \<lparr> desc_get = GetPointer off, desc_set = None \<rparr>"
      using pointer_kind_descriptor [OF np, of nm off] tags by simp
    show ?thesis
      using u t d unknown_tag_label [OF u] unknown_tag_not_pointer [OF u] unknown_tag_not_primitive [OF u]
        addFieldAccessors_initial [of "slotFieldInfo nm off ty"]
      by (simp add: slotFieldInfo_simps)
  qed
  show ?thesis using lab rest by blast
qed

text \<open>An instance: the tag 42.\<close>

theorem unknown_tag_fallback_witness:
  "42 \<notin> set known_tags \<and> typeToString 42 = ''unknown''
   \<and> \<not> isPointerType 42 \<and> \<not> isPrimitiveType 42
   \<and> fieldDescriptor (slotFieldInfo ''future'' 3 (tagged 42))
       = \<lparr> desc_get = GetPointer 3, desc_set = None \<rparr>"
proof -
  have u: "42 \<notin> set known_tags" by (simp add: known_tags_def Type_defs)
  show ?thesis
    using unknown_tag_fallback [of 42 "tagged 42" "''future''" 3] u by (simp add: tagged_def)
qed

text \<open>
  C8. Field extraction visits the fields in declaration order and returns, in
  that order, one descriptor for each slot field and none for another field; a
  repeated name is kept; the descriptor of a struct field records the nested
  struct's id, that of a list field the classified element type.
\<close>

theorem parseFields_slots_in_order:
  "parseFields fieldsList = map spec_descriptor (filter field_isSlot fieldsList)
   \<and> length (parseFields fieldsList) = length (filter field_isSlot fieldsList)
   \<and> map fi_name (parseFields fieldsList) = map field_name (filter field_isSlot fieldsList)"
proof -
  have eq: "parseFields fieldsList = map spec_descriptor (filter field_isSlot fieldsList)"
    by (simp add: parseFields_def parseFields_loop_spec)
  have nm: "fi_name \<circ> spec_descriptor = field_name"
    by (rule ext) (simp add: spec_descriptor_def Let_def)
  show ?thesis unfolding eq by (simp add: nm)
qed

text \<open>
  An instance: an int32 field, a group, a struct field of the same name as the
  first, and a list of text.
\<close>

theorem parseFields_slots_in_order_witness:
  "map fi_name (parseFields sample_fields) = [''a'', ''a'', ''xs'']
   \<and> map fi_offset (parseFields sample_fields) = [2, 0, 1]
   \<and> map fi_type (parseFields sample_fields) = [''int32'', ''struct'', ''list'']
   \<and> map structTypeId (parseFields sample_fields) = [None, Some 99, None]
   \<and> map listElementType (parseFields sample_fields) = [None, None, Some ''text'']"
proof -
  have f: "filter field_isSlot sample_fields
             = [sample_fields ! 0, sample_fields ! 2, sample_fields ! 3]"
    by (simp add: sample_fields_def int32_field_def)
  have e: "parseFields sample_fields = map spec_descriptor (filter field_isSlot sample_fields)"
    using parseFields_slots_in_order [of sample_fields] by (rule conjunct1)
  show ?thesis
    unfolding e f
    by (simp add: sample_fields_def int32_field_def int32_type_def spec_descriptor_def
          typeToString_def Type_defs)
qed

text \<open>
  C9, at a field named \<^verbatim>\<open>__proto__\<close>. The claim asks that a field whose read
  fails be recorded with the null marker, and every other field be projected.
  \<^verbatim>\<open>toObject\<close> records with \<^verbatim>\<open>obj[key] = ...\<close> on the literal \<^verbatim>\<open>{}\<close>, and
  for this one name the assignment runs the setter of \<^verbatim>\<open>Object.prototype\<close>
  and makes no property. With an int32 field \<^verbatim>\<open>__proto__\<close> at wire offset 9 and
  a text field \<^verbatim>\<open>name\<close>: when the data section has eight bytes the read of
  \<^verbatim>\<open>__proto__\<close> throws, and the result has no null marker for it (its
  prototype is now \<^verbatim>\<open>null\<close>); when the data section has forty bytes the read
  gives 0, and the result has no entry for it either. (For a prototype without
  that name, \<open>toObject_without_proto_key\<close> above shows what the claim asks.)
\<close>

theorem toObject_drops_proto_field:
  "Object_keys (inst_proto (new_instance (loaded_schema proto_named_node) [] (replicate 8 0) [PtrText ''x'']))
     = [''__proto__'', ''name'']
   \<and> readProperty (new_instance (loaded_schema proto_named_node) [] (replicate 8 0) [PtrText ''x''])
         ''__proto__''
       = Inl RangeError
   \<and> toObject passes_on
        (new_instance (loaded_schema proto_named_node) [] (replicate 8 0) [PtrText ''x''])
        (loaded_schema proto_named_node)
       = Inr \<lparr> obj_prototype = NullPrototype, obj_props = [(''name'', VString ''x'')] \<rparr>
   \<and> readProperty (new_instance (loaded_schema proto_named_node) [] (replicate 40 0) [PtrText ''x''])
         ''__proto__''
       = Inr (VNumber 0)
   \<and> toObject passes_on
        (new_instance (loaded_schema proto_named_node) [] (replicate 40 0) [PtrText ''x''])
        (loaded_schema proto_named_node)
       = Inr \<lparr> obj_prototype = ObjectPrototype, obj_props = [(''name'', VString ''x'')] \<rparr>"
proof -
  let ?s = "new_instance (loaded_schema proto_named_node) [] (replicate 8 0) [PtrText ''x'']"
  let ?t = "new_instance (loaded_schema proto_named_node) [] (replicate 40 0) [PtrText ''x'']"
  have k: "Object_keys (inst_proto ?s) = [''__proto__'', ''name'']"
    by (simp add: new_instance_def proto_named_prototype Object_keys_def not_index_nothing)
  have k': "Object_keys (inst_proto ?t) = [''__proto__'', ''name'']"
    by (simp add: new_instance_def proto_named_prototype Object_keys_def not_index_nothing)
  have r1: "readProperty ?s ''__proto__'' = Inl RangeError"
    by (simp add: new_instance_def proto_named_prototype readProperty_def returning_def
          getSigned_def readLE_def checkDataBounds_def)
  have r2: "readProperty ?s ''name'' = Inr (VString ''x'')"
    by (simp add: new_instance_def proto_named_prototype readProperty_def returning_def
          getText_def checkPointerBounds_def)
  have "take 4 (drop 36 (replicate 40 (0 :: 8 word))) = replicate 4 0" by simp
  then have r3: "readProperty ?t ''__proto__'' = Inr (VNumber 0)"
    by (simp add: new_instance_def proto_named_prototype readProperty_def returning_def
          getSigned_def readLE_def checkDataBounds_def le_decode_zeros signed_of_def)
  have r4: "readProperty ?t ''name'' = Inr (VString ''x'')"
    by (simp add: new_instance_def proto_named_prototype readProperty_def returning_def
          getText_def checkPointerBounds_def)
  have a: "toObject passes_on ?s (loaded_schema proto_named_node)
       = Inr \<lparr> obj_prototype = NullPrototype, obj_props = [(''name'', VString ''x'')] \<rparr>"
    unfolding toObject_def k
    by (simp add: r1 r2 assign_def assign_via_Object_prototype_def empty_object_def)
  have b: "toObject passes_on ?t (loaded_schema proto_named_node)
       = Inr \<lparr> obj_prototype = ObjectPrototype, obj_props = [(''name'', VString ''x'')] \<rparr>"
    unfolding toObject_def k'
    by (simp add: r3 r4 assign_def assign_via_Object_prototype_def empty_object_def)
  from k r1 a r3 b show ?thesis by blast
qed

text \<open>
  C10, as amended. In the object that \<^verbatim>\<open>toObject\<close> returns, a key whose read
  yields undefined has no entry at all, neither a value nor the null marker.
  Void fields are not among such keys: no descriptor that field extraction
  builds gets the getter that returns undefined; a void field, like a field of
  an unknown tag, is not primitive and gets the raw-pointer fallback getter at
  its offset and no setter; and that getter returns the pointer of its slot, or
  throws when the slot is out of range, and never returns undefined.
\<close>

theorem toObject_omits_undefined:
  "(toObject ext s schema = Inr obj \<and> readProperty s key = Inr VUndefined \<longrightarrow>
      map_of (obj_props obj) key = None)
   \<and> desc_get (fieldDescriptor (slotFieldInfo nm off ty)) \<noteq> GetUndefined
   \<and> (type_which ty = Type_VOID \<or> type_which ty \<notin> set known_tags \<longrightarrow>
        fieldDescriptor (slotFieldInfo nm off ty)
          = \<lparr> desc_get = GetPointer off, desc_set = None \<rparr>)
   \<and> call_getter (GetPointer off) s
       = (if off < length (inst_ptrs s) then Inr (VPointer (inst_ptrs s ! off))
          else Inl RangeError)
   \<and> call_getter (GetPointer off) s \<noteq> Inr VUndefined"
proof -
  have a: "toObject ext s schema = Inr obj \<and> readProperty s key = Inr VUndefined \<longrightarrow>
      map_of (obj_props obj) key = None"
    using toObject_undefined_absent [of ext s schema obj key] by blast
  have g: "call_getter (GetPointer off) s
       = (if off < length (inst_ptrs s) then Inr (VPointer (inst_ptrs s ! off))
          else Inl RangeError)"
    by (simp add: returning_def getPointer_def checkPointerBounds_def)
  have n: "call_getter (GetPointer off) s \<noteq> Inr VUndefined"
    unfolding g by simp
  show ?thesis
    using a g n schema_getter_defined [of nm off ty] void_descriptor [of ty nm off] by blast
qed

text \<open>An instance: a hand-made prototype with a getter that returns undefined.\<close>

theorem toObject_omits_undefined_witness:
  "toObject passes_on ghost_instance (loaded_schema marker_node)
     = Inr \<lparr> obj_prototype = ObjectPrototype, obj_props = [(''nothing'', VPointer PtrNull)] \<rparr>
   \<and> readProperty ghost_instance ''ghost'' = Inr VUndefined
   \<and> map_of [(''nothing'', VPointer PtrNull)] ''ghost'' = None
   \<and> fieldDescriptor (slotFieldInfo ''nothing'' 0 (tagged Type_VOID))
       = \<lparr> desc_get = GetPointer 0, desc_set = None \<rparr>
   \<and> call_getter (GetPointer 0) ghost_instance = Inr (VPointer PtrNull)"
proof -
  have k: "Object_keys (inst_proto ghost_instance) = [''ghost'', ''nothing'']"
    by (simp add: ghost_instance_def Object_keys_def not_index_nothing)
  have r: "readProperty ghost_instance ''ghost'' = Inr VUndefined"
    by (simp add: ghost_instance_def readProperty_def)
  have r2: "readProperty ghost_instance ''nothing'' = Inr (VPointer PtrNull)"
    by (simp add: ghost_instance_def readProperty_def returning_def getPointer_def
          checkPointerBounds_def)
  have t: "toObject passes_on ghost_instance (loaded_schema marker_node)
     = Inr \<lparr> obj_prototype = ObjectPrototype, obj_props = [(''nothing'', VPointer PtrNull)] \<rparr>"
    unfolding toObject_def k
    by (simp add: r r2 assign_def assign_via_Object_prototype_def empty_object_def)
  have v: "type_which (tagged Type_VOID) = Type_VOID" by (simp add: tagged_def)
  have l: "inst_ptrs ghost_instance = [PtrNull]" by (simp add: ghost_instance_def)
  show ?thesis
    using toObject_omits_undefined
            [where ext = passes_on and s = ghost_instance and schema = "loaded_schema marker_node"
               and obj = "\<lparr> obj_prototype = ObjectPrototype,
                              obj_props = [(''nothing'', VPointer PtrNull)] \<rparr>"
               and key = "''ghost''" and nm = "''nothing''" and off = 0
               and ty = "tagged Type_VOID"]
          t r v l
    by simp
qed

text \<open>
  C10 as first stated counts void fields among those that \<^verbatim>\<open>toObject\<close>
  omits. A struct whose only field is void projects to an object with that field:
  holding the pointer when the struct has a pointer slot, null when it has none.
\<close>

theorem void_field_is_projected:
  "map_of (ctor_prototype (structCtor (loaded_schema marker_node))) ''nothing''
     = Some (Accessor (GetPointer 0) None)
   \<and> call_getter (GetPointer 0) (new_instance (loaded_schema marker_node) [] [] [PtrNull])
       = Inr (VPointer PtrNull)
   \<and> toObject passes_on (new_instance (loaded_schema marker_node) [] [] [PtrNull])
        (loaded_schema marker_node)
       = Inr \<lparr> obj_prototype = ObjectPrototype, obj_props = [(''nothing'', VPointer PtrNull)] \<rparr>
   \<and> toObject passes_on (new_instance (loaded_schema marker_node) [] [] [])
        (loaded_schema marker_node)
       = Inr \<lparr> obj_prototype = ObjectPrototype, obj_props = [(''nothing'', VNull)] \<rparr>"
  by (simp add: marker_prototype new_instance_def toObject_def Object_keys_def not_index_nothing
        readProperty_def returning_def getPointer_def checkPointerBounds_def
        assign_def assign_via_Object_prototype_def empty_object_def)

end
